theory Spec2Isabelle
  imports Complex_Main "HOL-Library.AList" "HOL-Library.Char_ord" "HOL-Library.List_Lexorder"
begin

section \<open>Python values used by the phasing code\<close>

text \<open>
  Every \<^verbatim>\<open>raise\<close> and every failing builtin of the Python sources is a value
  of \<open>py_error\<close>; a function that may fail returns \<open>py_error + 'a\<close> with \<open>Inl\<close> for
  the exception.
\<close>

datatype py_error =
    ValueError string
  | TypeError
  | IndexError
  | KeyError
  | ZeroDivisionError
  | AssertionError
  | AttributeError

text \<open>
  Sequencing a failing step with the rest of a function body, as the propagation of an
  exception does.
\<close>

definition bind :: "py_error + 'a \<Rightarrow> ('a \<Rightarrow> py_error + 'b) \<Rightarrow> py_error + 'b" where
  "bind m f = (case m of Inl e \<Rightarrow> Inl e | Inr x \<Rightarrow> f x)"

text \<open>
  A Python \<^verbatim>\<open>dict\<close> keeps its keys in insertion order, and assigning to a key that
  is present keeps the key's place: an association list with \<open>AList.update\<close>.
\<close>

type_synonym ('k, 'v) pydict = "('k \<times> 'v) list"

definition getitem :: "('k, 'v) pydict \<Rightarrow> 'k \<Rightarrow> py_error + 'v" where
  "getitem d k = (case map_of d k of None \<Rightarrow> Inl KeyError | Some v \<Rightarrow> Inr v)"

text \<open>
  A Python \<^verbatim>\<open>float\<close>: a finite value, given as the real number it stands for, an
  infinity or NaN. The code itself produces \<^verbatim>\<open>-float("inf")\<close> and compares and
  subtracts such scores. The operations \<open>fadd\<close> and \<open>fsub\<close> below do not round a finite
  result; \<^verbatim>\<open>prune\<close>, whose result depends on the last bit of a difference, is modelled
  with the rounding operations of \<open>float_ops\<close> further down.
\<close>

datatype pyfloat = Fin real | PInf | NInf | NaN

fun fadd :: "pyfloat \<Rightarrow> pyfloat \<Rightarrow> pyfloat" where
  "fadd (Fin x) (Fin y) = Fin (x + y)"
| "fadd NaN _ = NaN"
| "fadd _ NaN = NaN"
| "fadd PInf NInf = NaN"
| "fadd NInf PInf = NaN"
| "fadd PInf _ = PInf"
| "fadd NInf _ = NInf"
| "fadd (Fin _) PInf = PInf"
| "fadd (Fin _) NInf = NInf"

fun fneg :: "pyfloat \<Rightarrow> pyfloat" where
  "fneg (Fin x) = Fin (- x)"
| "fneg PInf = NInf"
| "fneg NInf = PInf"
| "fneg NaN = NaN"

definition fsub :: "pyfloat \<Rightarrow> pyfloat \<Rightarrow> pyfloat" where
  "fsub x y = fadd x (fneg y)"

fun fabs :: "pyfloat \<Rightarrow> pyfloat" where
  "fabs (Fin x) = Fin \<bar>x\<bar>"
| "fabs PInf = PInf"
| "fabs NInf = PInf"
| "fabs NaN = NaN"

text \<open>\<^verbatim>\<open>x < y\<close> on floats: false as soon as one side is NaN.\<close>

fun flt :: "pyfloat \<Rightarrow> pyfloat \<Rightarrow> bool" where
  "flt (Fin x) (Fin y) = (x < y)"
| "flt NaN _ = False"
| "flt _ NaN = False"
| "flt _ NInf = False"
| "flt PInf _ = False"
| "flt NInf _ = True"
| "flt (Fin _) PInf = True"

text \<open>
  The builtin \<^verbatim>\<open>min\<close> over a sequence: ValueError on an empty one; otherwise it
  keeps the first item and replaces it by each later item that compares \<^verbatim>\<open><\<close> it.
\<close>

definition py_min :: "pyfloat list \<Rightarrow> py_error + pyfloat" where
  "py_min xs =
     (case xs of
        [] \<Rightarrow> Inl (ValueError ''min() arg is an empty sequence'')
      | x # rest \<Rightarrow> Inr (fold (\<lambda>item best. if flt item best then item else best) rest x))"

text \<open>
  \<^verbatim>\<open>random.choice(seq)\<close>: IndexError on an empty sequence, otherwise the element at
  a random index below \<^verbatim>\<open>len(seq)\<close>. The random draw is the explicit argument
  \<open>rnd\<close>, reduced modulo the length, so every index can be drawn.
\<close>

definition choice :: "nat \<Rightarrow> 'a list \<Rightarrow> py_error + 'a" where
  "choice rnd xs = (if xs = [] then Inl IndexError else Inr (xs ! (rnd mod length xs)))"

section \<open>The phasing engine (alg.py)\<close>

subsection \<open>Reads and the graph\<close>

text \<open>
  Modelled from the spec: the \<^verbatim>\<open>Read\<close> class of read.py, which is not among the
  sources. The constructor call \<^verbatim>\<open>Read(snps, count, id)\<close> of \<^verbatim>\<open>parse_phases\<close> gives the
  first three fields. \<^verbatim>\<open>special_snp\<close> and \<^verbatim>\<open>rates\<close> are assigned by
  \<^verbatim>\<open>load_dna_data\<close> and read by \<^verbatim>\<open>read_val_tail\<close>: a read that has been given
  them is the extended record.
\<close>

record Read =
  snps :: "(int, int) pydict"
  count :: int
  read_id :: nat

record DnaRead = Read +
  special_snp :: int
  rates :: "real list"

text \<open>
  Modelled from the spec: the \<^verbatim>\<open>Graph\<close> class of graph.py, which is not among the
  sources, as far as \<^verbatim>\<open>parallel\<close> and \<^verbatim>\<open>phase\<close> read it: the ploidy, the components
  keyed by their root SNP, each with its ordered node list, and the reads relevant to
  each SNP; \<^verbatim>\<open>graph.snp_reads[snp]\<close> is taken to be there for every SNP.
\<close>

record Component =
  nodes :: "int list"

record Graph =
  ploidy :: nat
  components :: "(int, Component) pydict"
  snp_reads :: "int \<Rightarrow> DnaRead list"

subsection \<open>Float and sequence helpers\<close>

definition py_div :: "real \<Rightarrow> real \<Rightarrow> py_error + real" where
  "py_div x y = (if y = 0 then Inl ZeroDivisionError else Inr (x / y))"

text \<open>\<^verbatim>\<open>math.log\<close> raises ValueError outside its domain.\<close>

definition py_log :: "real \<Rightarrow> py_error + real" where
  "py_log x = (if x \<le> 0 then Inl (ValueError ''math domain error'') else Inr (ln x))"

text \<open>\<^verbatim>\<open>x >= y\<close> on floats.\<close>

fun fge :: "pyfloat \<Rightarrow> pyfloat \<Rightarrow> bool" where
  "fge (Fin x) (Fin y) = (x \<ge> y)"
| "fge NaN _ = False"
| "fge _ NaN = False"
| "fge PInf _ = True"
| "fge _ NInf = True"
| "fge _ _ = False"

text \<open>The builtin \<^verbatim>\<open>max\<close>, the mirror image of \<open>py_min\<close>.\<close>

definition py_max :: "pyfloat list \<Rightarrow> py_error + pyfloat" where
  "py_max xs =
     (case xs of
        [] \<Rightarrow> Inl (ValueError ''max() arg is an empty sequence'')
      | x # rest \<Rightarrow> Inr (fold (\<lambda>item best. if flt best item then item else best) rest x))"

text \<open>\<^verbatim>\<open>xs[i]\<close> for an index that is not negative.\<close>

definition nth_err :: "'a list \<Rightarrow> nat \<Rightarrow> py_error + 'a" where
  "nth_err xs i = (if i < length xs then Inr (xs ! i) else Inl IndexError)"

text \<open>A \<^verbatim>\<open>for\<close> loop over a list whose body may raise.\<close>

fun fold_err :: "('a \<Rightarrow> 's \<Rightarrow> py_error + 's) \<Rightarrow> 'a list \<Rightarrow> 's \<Rightarrow> py_error + 's" where
  "fold_err f [] s = Inr s"
| "fold_err f (x # xs) s = (case f x s of Inl e \<Rightarrow> Inl e | Inr s' \<Rightarrow> fold_err f xs s')"

text \<open>
  \<^verbatim>\<open>for j in n\<close> with \<open>n\<close> an \<^verbatim>\<open>int\<close>: an int is not iterable, so asking for its
  iterator raises TypeError before the body runs.
\<close>

definition iter_int :: "nat \<Rightarrow> py_error + nat list" where
  "iter_int n = Inl TypeError"

text \<open>
  \<^verbatim>\<open>itertools.permutations\<close> in its order: the first element runs through the
  positions from left to right, the rest is permuted the same way.
\<close>

fun perms_of_length :: "nat \<Rightarrow> 'a list \<Rightarrow> 'a list list" where
  "perms_of_length 0 xs = [[]]"
| "perms_of_length (Suc n) xs =
     concat (map (\<lambda>i. map ((#) (xs ! i)) (perms_of_length n (take i xs @ drop (Suc i) xs)))
               [0..<length xs])"

definition permutations :: "'a list \<Rightarrow> 'a list list" where
  "permutations xs = perms_of_length (length xs) xs"

subsection \<open>The store of haplotype dictionaries\<close>

text \<open>
  What a haplotype dictionary holds at a SNP: an allele index, or whatever else the code
  assigns there. Line 86 of alg.py assigns \<^verbatim>\<open>config[j]\<close>, and \<^verbatim>\<open>config\<close> is there the
  whole list of permutations, so \<^verbatim>\<open>config[j]\<close> is a tuple.
\<close>

datatype pyval = VInt int | VTuple "nat list"

type_synonym ref = nat

type_synonym store = "(int, pyval) pydict list"

definition deref :: "store \<Rightarrow> ref \<Rightarrow> (int, pyval) pydict" where
  "deref st r = st ! r"

text \<open>\<^verbatim>\<open>{}\<close> and \<^verbatim>\<open>copy(d)\<close>: a new dictionary object.\<close>

definition new_dict :: "store \<Rightarrow> (int, pyval) pydict \<Rightarrow> store \<times> ref" where
  "new_dict st d = (st @ [d], length st)"

text \<open>\<^verbatim>\<open>d[k] = v\<close> on the object that \<open>r\<close> refers to.\<close>

definition setitem :: "store \<Rightarrow> ref \<Rightarrow> int \<Rightarrow> pyval \<Rightarrow> store" where
  "setitem st r k v = st[r := AList.update k v (st ! r)]"

text \<open>
  \<^verbatim>\<open>class Phase(NamedTuple): haplotypes: List[Dict[int, int]]; score: float\<close>.
  The dictionaries are mutable objects that several haplotypes and several Phases may
  share, so a Phase holds references into the store. The list of references itself is
  never mutated.
\<close>

record Phase =
  haplotypes :: "ref list"
  score :: pyfloat

subsection \<open>read\_val\_tail\<close>

definition CONFIDENCE :: real where
  "CONFIDENCE = 0.5"

text \<open>Lines 34 and 35: the constants \<open>a\<close> and \<open>b\<close> of the error model.\<close>

definition error_model :: "real \<Rightarrow> py_error + real \<times> real" where
  "error_model error =
     bind (py_div (1 - error) (1 - (2 * error / 3.0))) (\<lambda>a.
     bind (py_div (error / 3.0) (1 - (2 * error / 3.0))) (\<lambda>b.
     Inr (a, b)))"

text \<open>Lines 41 to 43: \<^verbatim>\<open>for snp in read.snps\<close>, updating \<^verbatim>\<open>prob\<close>.\<close>

definition snp_factor ::
  "real \<Rightarrow> real \<Rightarrow> (int, pyval) pydict \<Rightarrow> int \<Rightarrow> int \<times> int \<Rightarrow> real \<Rightarrow> py_error + real" where
  "snp_factor a b haplo last_snp = (\<lambda>(snp, allele) prob.
     if snp \<le> last_snp then
       bind (getitem haplo snp) (\<lambda>h. Inr (prob * (if VInt allele = h then a else b)))
     else Inr prob)"

text \<open>Lines 39 to 45: one haplotype's share of \<^verbatim>\<open>probs\<close> and \<^verbatim>\<open>probs2\<close>.\<close>

definition haplo_step ::
  "real \<Rightarrow> real \<Rightarrow> DnaRead \<Rightarrow> int \<Rightarrow> nat \<times> (int, pyval) pydict \<Rightarrow> real \<times> real
     \<Rightarrow> py_error + real \<times> real" where
  "haplo_step a b read last_snp = (\<lambda>(hi, haplo) (probs, probs2).
     bind (nth_err (rates read) hi) (\<lambda>rate.
     bind (fold_err (snp_factor a b haplo last_snp) (snps read)
             ((CONFIDENCE * rate) + (0.5 * (1 - CONFIDENCE)))) (\<lambda>prob.
     bind (getitem (snps read) last_snp) (\<lambda>ra.
     bind (getitem haplo last_snp) (\<lambda>ha.
     bind (py_div prob (if VInt ra = ha then a else b)) (\<lambda>q.
     Inr (probs + prob, probs2 + q)))))))"

text \<open>Lines 37 to 51: one read's share of \<^verbatim>\<open>val\<close> and \<^verbatim>\<open>val2\<close>.\<close>

definition read_step ::
  "real \<Rightarrow> real \<Rightarrow> (int, pyval) pydict list \<Rightarrow> int \<Rightarrow> DnaRead \<Rightarrow> pyfloat \<times> real
     \<Rightarrow> py_error + pyfloat \<times> real" where
  "read_step a b haplos last_snp = (\<lambda>read (val, val2).
     bind (fold_err (haplo_step a b read last_snp) (enumerate 0 haplos) (0, 0))
       (\<lambda>(probs, probs2).
          if probs = 0 then Inr (NInf, val2)
          else
            bind (py_log probs) (\<lambda>lp.
              if \<not> last_snp = special_snp read then
                bind (py_log probs2) (\<lambda>lp2.
                  Inr (fadd val (Fin (lp * of_int (count read))), val2 + lp2 * of_int (count read)))
              else Inr (fadd val (Fin (lp * of_int (count read))), val2))))"

definition read_val_tail ::
  "(int, pyval) pydict list \<Rightarrow> real \<Rightarrow> real \<Rightarrow> DnaRead list \<Rightarrow> int \<Rightarrow> int
     \<Rightarrow> py_error + pyfloat" where
  "read_val_tail haplos pair_threshold error relevant_reads last_snp prev_snp =
     bind (error_model error) (\<lambda>(a, b).
     bind (fold_err (read_step a b haplos last_snp) relevant_reads (Fin 0, 0))
       (\<lambda>(val, val2).
     bind (nth_err haplos 0) (\<lambda>h0.
       if length h0 > 1 then
         (if prev_snp = - 1 then Inl AssertionError
          else
            bind (getitem h0 last_snp) (\<lambda>x.
            bind (getitem h0 prev_snp) (\<lambda>y.
            bind (py_log (if x = y then pair_threshold else 1 - pair_threshold)) (\<lambda>l.
            Inr (fsub (fadd val (Fin l)) (Fin val2))))))
       else Inr (fsub val (Fin val2)))))"

subsection \<open>branch\<close>

text \<open>
  Lines 85 and 86, and again 98 and 99:
  \<^verbatim>\<open>for j in len(config): target[j][snp] = config[j]\<close>.
\<close>

definition assign_config :: "store \<Rightarrow> ref list \<Rightarrow> int \<Rightarrow> nat list list \<Rightarrow> py_error + store" where
  "assign_config st target snp config =
     bind (iter_int (length config)) (\<lambda>js.
       fold_err (\<lambda>j st.
           bind (nth_err config j) (\<lambda>c.
           bind (nth_err target j) (\<lambda>r.
           Inr (setitem st r snp (VTuple c)))))
         js st)"

text \<open>Lines 84 to 89: the first pass over \<^verbatim>\<open>configs\<close>, which fills \<^verbatim>\<open>costs\<close>.\<close>

definition score_config ::
  "ref list \<Rightarrow> int \<Rightarrow> int \<Rightarrow> DnaRead list \<Rightarrow> real \<Rightarrow> real \<Rightarrow> nat \<times> nat list list
     \<Rightarrow> store \<times> pyfloat list \<Rightarrow> py_error + store \<times> pyfloat list" where
  "score_config partial snp prev_snp relevant_reads pair_threshold error = (\<lambda>(i, config) (st, costs).
     bind (assign_config st partial snp config) (\<lambda>st'.
     bind (read_val_tail (map (deref st') partial) pair_threshold error relevant_reads snp prev_snp)
       (\<lambda>c. Inr (st', costs[i := c]))))"

text \<open>
  Lines 91 to 100: the second pass, which keeps the configurations within the threshold.
  The first one kept writes into the dictionaries of \<^verbatim>\<open>partial\<close> themselves; each later
  one into copies of \<^verbatim>\<open>partial[0]\<close> and \<^verbatim>\<open>partial[1]\<close>.
\<close>

definition extend_config ::
  "ref list \<Rightarrow> pyfloat \<Rightarrow> int \<Rightarrow> pyfloat list \<Rightarrow> pyfloat \<Rightarrow> nat \<times> nat list list
     \<Rightarrow> store \<times> bool \<times> Phase list \<Rightarrow> py_error + store \<times> bool \<times> Phase list" where
  "extend_config partial score0 snp costs t = (\<lambda>(i, config) (st, used, new_phases).
     bind (nth_err costs i) (\<lambda>c.
       if fge c t then
         bind (if used then
                 bind (nth_err partial 0) (\<lambda>r0.
                 bind (nth_err partial 1) (\<lambda>r1.
                   let (st1, c0) = new_dict st (deref st r0);
                       (st2, c1) = new_dict st1 (deref st1 r1)
                   in Inr (st2, [c0, c1], used)))
               else Inr (st, partial, True))
           (\<lambda>(st', extended, used').
         bind (assign_config st' extended snp config) (\<lambda>st''.
         Inr (st'', used', new_phases @ [\<lparr>haplotypes = extended, score = fsub score0 c\<rparr>])))
       else Inr (st, used, new_phases)))"

text \<open>Lines 83 to 100: the body of \<^verbatim>\<open>for partial, score in phases\<close>.\<close>

definition branch_phase ::
  "nat list list list \<Rightarrow> int \<Rightarrow> int \<Rightarrow> DnaRead list \<Rightarrow> real \<Rightarrow> real \<Rightarrow> real \<Rightarrow> Phase
     \<Rightarrow> store \<times> pyfloat list \<times> Phase list \<Rightarrow> py_error + store \<times> pyfloat list \<times> Phase list" where
  "branch_phase configs snp prev_snp relevant_reads threshold pair_threshold error =
     (\<lambda>p (st, costs, new_phases).
        bind (fold_err
                (score_config (haplotypes p) snp prev_snp relevant_reads pair_threshold error)
                (enumerate 0 configs) (st, costs)) (\<lambda>(st', costs').
        bind (py_max costs') (\<lambda>m.
          let t = fadd (Fin threshold) m in
          bind (fold_err (extend_config (haplotypes p) (score p) snp costs' t)
                  (enumerate 0 configs) (st', False, new_phases)) (\<lambda>(st'', used, new_phases').
          Inr (st'', costs', new_phases')))))"

text \<open>
  Line 81 ends in a comma: \<^verbatim>\<open>configs\<close> is a tuple with one element, the list of all
  permutations of \<^verbatim>\<open>range(ploidy)\<close>. So \<^verbatim>\<open>costs\<close> has one entry, and the only
  \<^verbatim>\<open>config\<close> that the loops see is that list.
\<close>

definition branch ::
  "store \<Rightarrow> Phase list \<Rightarrow> int \<Rightarrow> int \<Rightarrow> DnaRead list \<Rightarrow> real \<Rightarrow> real \<Rightarrow> real \<Rightarrow> nat
     \<Rightarrow> py_error + store \<times> Phase list" where
  "branch st phases snp prev_snp relevant_reads threshold pair_threshold error ploidy_arg =
     (let configs = [permutations [0..<ploidy_arg]];
          costs = replicate (length configs) (Fin 0.0)
      in bind (fold_err
                 (branch_phase configs snp prev_snp relevant_reads threshold pair_threshold error)
                 phases (st, costs, []))
           (\<lambda>(st', costs', new_phases). Inr (st', new_phases)))"

subsection \<open>prune\<close>

text \<open>
  \<^verbatim>\<open>prune\<close> compares a difference of two scores with a window; both are results of
  float operations, and a score at the edge of the window is kept or dropped by their
  rounding. What the platform computes for finite floats is therefore an argument of the
  model: \<open>fl_log x\<close> is \<^verbatim>\<open>math.log(x)\<close> for a positive float, \<open>fl_add x y\<close> and
  \<open>fl_sub x y\<close> are \<^verbatim>\<open>x + y\<close> and \<^verbatim>\<open>x - y\<close> (rounded, and infinite on overflow).
\<close>

record float_ops =
  fl_log :: "real \<Rightarrow> real"
  fl_add :: "real \<Rightarrow> real \<Rightarrow> pyfloat"
  fl_sub :: "real \<Rightarrow> real \<Rightarrow> pyfloat"

text \<open>The operations without rounding, for inputs whose results are floats as they are.\<close>

definition exact_ops :: float_ops where
  "exact_ops = \<lparr>fl_log = ln, fl_add = (\<lambda>x y. Fin (x + y)), fl_sub = (\<lambda>x y. Fin (x - y))\<rparr>"

text \<open>\<^verbatim>\<open>x - y\<close> on floats: rounded when both are finite.\<close>

definition rsub :: "float_ops \<Rightarrow> pyfloat \<Rightarrow> pyfloat \<Rightarrow> pyfloat" where
  "rsub fl x y =
     (case x of
        Fin a \<Rightarrow> (case y of Fin b \<Rightarrow> fl_sub fl a b | _ \<Rightarrow> fsub x y)
      | _ \<Rightarrow> fsub x y)"

text \<open>
  The floats that the literals \<^verbatim>\<open>0.1\<close>, \<^verbatim>\<open>0.05\<close>, \<^verbatim>\<open>0.01\<close>, \<^verbatim>\<open>0.001\<close> and
  \<^verbatim>\<open>0.0001\<close> denote: the binary64 numbers nearest to them.
\<close>

definition lit_0_1 :: real where
  "lit_0_1 = 3602879701896397 / 2 ^ 55"

definition lit_0_05 :: real where
  "lit_0_05 = 3602879701896397 / 2 ^ 56"

definition lit_0_01 :: real where
  "lit_0_01 = 5764607523034235 / 2 ^ 59"

definition lit_0_001 :: real where
  "lit_0_001 = 1152921504606847 / 2 ^ 60"

definition lit_0_0001 :: real where
  "lit_0_0001 = 7378697629483821 / 2 ^ 66"

text \<open>
  Lines 109 to 120 of alg.py: the acceptance window of \<^verbatim>\<open>prune\<close>. Every literal is
  positive, so \<^verbatim>\<open>log\<close> does not raise.
\<close>

definition prune_threshold :: "float_ops \<Rightarrow> nat \<Rightarrow> bool \<Rightarrow> pyfloat" where
  "prune_threshold fl n is_last =
     (let threshold =
        (if is_last then 1
         else if n > 1000 then lit_0_1
         else if n > 500 then lit_0_05
         else if n > 100 then lit_0_01
         else lit_0_001)
      in fl_add fl \<bar>fl_log fl threshold\<bar> lit_0_0001)"

definition prune :: "float_ops \<Rightarrow> nat \<Rightarrow> Phase list \<Rightarrow> bool \<Rightarrow> py_error + Phase list" where
  "prune fl rnd phases is_last =
     (let threshold = prune_threshold fl (length phases) is_last in
      bind (py_min (map score phases)) (\<lambda>min_val.
        let nphases = filter (\<lambda>p. flt (fabs (rsub fl (score p) min_val)) threshold) phases in
        if is_last then bind (choice rnd nphases) (\<lambda>p. Inr [p])
        else Inr nphases))"

subsection \<open>parallel and phase\<close>

text \<open>
  Line 137: \<^verbatim>\<open>phases = [Phase([{}] * graph.ploidy, 0.0)]\<close>. The display \<^verbatim>\<open>{}\<close> is
  evaluated once, and the list repeats the reference to that one dictionary.
\<close>

definition init_phases :: "store \<Rightarrow> nat \<Rightarrow> store \<times> Phase list" where
  "init_phases st n =
     (let (st', r) = new_dict st [] in (st', [\<lparr>haplotypes = replicate n r, score = Fin 0.0\<rparr>]))"

text \<open>
  Lines 140 to 149, the loop over the nodes of the component. Beside the result the
  model returns the SNPs at which \<^verbatim>\<open>branch\<close> was called, in the order of the calls;
  this trace is not a value of the program, it records its control flow. The arguments
  \<open>fl\<close> and \<open>rnd\<close> are what \<^verbatim>\<open>prune\<close> takes from the platform: the float operations and
  the draw of \<^verbatim>\<open>choice\<close>.
\<close>

fun parallel_loop ::
  "float_ops \<Rightarrow> nat \<Rightarrow> Graph \<Rightarrow> int list \<Rightarrow> real \<Rightarrow> real \<Rightarrow> real \<Rightarrow> int list \<Rightarrow> store \<Rightarrow> Phase list \<Rightarrow> bool
     \<Rightarrow> int \<Rightarrow> int list \<times> (py_error + store \<times> Phase list)" where
  "parallel_loop fl rnd graph all_nodes threshold pair_threshold error [] st phases allow prev_snp =
     ([], Inr (st, phases))"
| "parallel_loop fl rnd graph all_nodes threshold pair_threshold error (snp # rest) st phases allow
       prev_snp =
     (if allow then
        (case bind (branch st phases snp prev_snp (snp_reads graph snp) threshold pair_threshold
                      error (ploidy graph))
                (\<lambda>(st', ps). bind (prune fl rnd ps (snp = last all_nodes)) (\<lambda>ps'. Inr (st', ps')))
         of
           Inl e \<Rightarrow> ([snp], Inl e)
         | Inr (st', ps') \<Rightarrow>
             (let (trace, r) = parallel_loop fl rnd graph all_nodes threshold pair_threshold error
                                 rest st' ps' True snp
              in (snp # trace, r)))
      else parallel_loop fl rnd graph all_nodes threshold pair_threshold error rest st phases True snp)"

definition parallel ::
  "float_ops \<Rightarrow> nat \<Rightarrow> store \<Rightarrow> Graph \<Rightarrow> int \<Rightarrow> real \<Rightarrow> real \<Rightarrow> real \<Rightarrow> bool
     \<Rightarrow> int list \<times> (py_error + store \<times> Phase)" where
  "parallel fl rnd st graph root_snp threshold pair_threshold error allow_allele_permutations =
     (let (st0, phases) = init_phases st (ploidy graph) in
      case getitem (components graph) root_snp of
        Inl e \<Rightarrow> ([], Inl e)
      | Inr c \<Rightarrow>
          (let (trace, r) = parallel_loop fl rnd graph (nodes c) threshold pair_threshold error
                              (nodes c) st0 phases allow_allele_permutations (- 1)
           in (trace, bind r (\<lambda>(st', ps). bind (nth_err ps 0) (\<lambda>p. Inr (st', p))))))"

text \<open>
  \<^verbatim>\<open>phase\<close> calls \<^verbatim>\<open>parallel\<close> with five arguments, so
  \<^verbatim>\<open>allow_allele_permutations\<close> has its default \<^verbatim>\<open>True\<close>.
\<close>

definition phase ::
  "float_ops \<Rightarrow> nat \<Rightarrow> store \<Rightarrow> Graph \<Rightarrow> real \<Rightarrow> real \<Rightarrow> real \<Rightarrow> py_error + store \<times> (int, Phase) pydict" where
  "phase fl rnd st graph threshold pair_threshold error =
     bind (py_div threshold (1 - threshold)) (\<lambda>q.
     bind (py_log q) (\<lambda>threshold'.
       fold_err (\<lambda>root_snp (st, result).
           bind (snd (parallel fl rnd st graph root_snp threshold' pair_threshold error True))
             (\<lambda>(st', p). Inr (st', AList.update root_snp p result)))
         (map fst (components graph)) (st, [])))"

section \<open>Parsing (files.py, datagen.py)\<close>

subsection \<open>Strings\<close>

text \<open>
  A \<^verbatim>\<open>str\<close> is a list of characters; a character stands for a code point below 256.
  A file is the list of its lines as the iteration over an open file gives them, each with
  its line end.
\<close>

definition is_space :: "char \<Rightarrow> bool" where
  "is_space c = (let n = (of_char c :: nat) in
     (9 \<le> n \<and> n \<le> 13) \<or> (28 \<le> n \<and> n \<le> 32) \<or> n = 133 \<or> n = 160)"

text \<open>\<^verbatim>\<open>s.split()\<close>: the maximal runs of characters that are not whitespace.\<close>

fun split_ws :: "string \<Rightarrow> string \<Rightarrow> string list" where
  "split_ws cur [] = (if cur = [] then [] else [cur])"
| "split_ws cur (c # cs) =
     (if is_space c then (if cur = [] then split_ws [] cs else cur # split_ws [] cs)
      else split_ws (cur @ [c]) cs)"

definition py_split :: "string \<Rightarrow> string list" where
  "py_split s = split_ws [] s"

text \<open>
  \<^verbatim>\<open>s.split(sep)\<close> for a separator that is not empty: the pieces between the
  occurrences of \<open>sep\<close>, found from left to right; there is always at least one piece.
\<close>

function split_sep :: "string \<Rightarrow> string \<Rightarrow> string \<Rightarrow> string list" where
  "split_sep sep cur [] = [cur]"
| "split_sep sep cur (c # cs) =
     (if sep \<noteq> [] \<and> take (length sep) (c # cs) = sep
      then cur # split_sep sep [] (drop (length sep) (c # cs))
      else split_sep sep (cur @ [c]) cs)"
  by pat_completeness auto
termination
  by (relation "measure (\<lambda>(sep, cur, s). length s)") auto

definition py_split_on :: "string \<Rightarrow> string \<Rightarrow> string list" where
  "py_split_on sep s = split_sep sep [] s"

text \<open>\<^verbatim>\<open>s.split(" ", 1)\<close>: at most one split, at the first blank.\<close>

definition split_once :: "char \<Rightarrow> string \<Rightarrow> string list" where
  "split_once sep s =
     (if sep \<in> set s then [takeWhile (\<lambda>c. c \<noteq> sep) s, tl (dropWhile (\<lambda>c. c \<noteq> sep) s)]
      else [s])"

text \<open>
  \<^verbatim>\<open>int(s)\<close> in base 10. The whitespace that \<^verbatim>\<open>int\<close> drops around the number is
  not the whitespace of \<^verbatim>\<open>split\<close>: the separators 0x1C to 0x1F are not dropped, and a
  string that holds one is no number. A sign may lead, and the digits may be grouped by
  single underscores. A number of more than 4300 digits is refused (the default limit
  of \<^verbatim>\<open>int\<close> since Python 3.11). Every refusal is a ValueError; its message is
  shortened to the name of the builtin.
\<close>

definition is_int_space :: "char \<Rightarrow> bool" where
  "is_int_space c = (let n = (of_char c :: nat) in
     (9 \<le> n \<and> n \<le> 13) \<or> n = 32 \<or> n = 133 \<or> n = 160)"

definition is_digit :: "char \<Rightarrow> bool" where
  "is_digit c = (48 \<le> (of_char c :: nat) \<and> (of_char c :: nat) \<le> 57)"

fun parse_digits :: "bool \<Rightarrow> nat \<Rightarrow> string \<Rightarrow> nat option" where
  "parse_digits after_digit acc [] = (if after_digit then Some acc else None)"
| "parse_digits after_digit acc (c # cs) =
     (if is_digit c then parse_digits True (acc * 10 + (of_char c - 48)) cs
      else if c = CHR ''_'' \<and> after_digit then parse_digits False acc cs
      else None)"

definition int_strip :: "string \<Rightarrow> string" where
  "int_strip s = rev (dropWhile is_int_space (rev (dropWhile is_int_space s)))"

definition py_int :: "string \<Rightarrow> py_error + int" where
  "py_int s =
     (let t = int_strip s;
          (negative, body) =
            (case t of
               [] \<Rightarrow> (False, [])
             | c # r \<Rightarrow> if c = CHR ''-'' then (True, r) else if c = CHR ''+'' then (False, r)
                        else (False, t))
      in case parse_digits False 0 body of
           None \<Rightarrow> Inl (ValueError ''int()'')
         | Some n \<Rightarrow>
             if length (filter is_digit body) > 4300 then Inl (ValueError ''int()'')
             else Inr (if negative then - int n else int n))"

text \<open>\<^verbatim>\<open>str(i)\<close> for an index \<open>i\<close>: its decimal digits.\<close>

fun py_str :: "nat \<Rightarrow> string" where
  "py_str n =
     (if n < 10 then [char_of (48 + n)] else py_str (n div 10) @ [char_of (48 + n mod 10)])"

declare py_str.simps [simp del]

text \<open>\<^verbatim>\<open>dict(pairs)\<close>: a later pair with the same key replaces the value.\<close>

definition py_dict :: "('k \<times> 'v) list \<Rightarrow> ('k, 'v) pydict" where
  "py_dict kvs = fold (\<lambda>(k, v) d. AList.update k v d) kvs []"

text \<open>\<^verbatim>\<open>xs[i]\<close> for any int: a negative index counts from the end.\<close>

definition py_index :: "'a list \<Rightarrow> int \<Rightarrow> py_error + 'a" where
  "py_index xs i =
     (if 0 \<le> i \<and> i < int (length xs) then Inr (xs ! nat i)
      else if i < 0 \<and> - i \<le> int (length xs) then Inr (xs ! nat (int (length xs) + i))
      else Inl IndexError)"

subsection \<open>The variant catalog\<close>

text \<open>
  Modelled from the spec: the \<^verbatim>\<open>SNP\<close> class of read.py, which is not among the
  sources. Its fields are the arguments of the constructor call in \<^verbatim>\<open>parse_vcf\<close>; the
  spec orders SNPs by (chromosome, position), and Python orders strings by code points.
\<close>

record SNP =
  snp_id :: nat
  chr :: string
  pos :: int
  name :: string
  alleles :: "string list"

definition snp_lt :: "SNP \<Rightarrow> SNP \<Rightarrow> bool" where
  "snp_lt x y = (chr x < chr y \<or> (chr x = chr y \<and> pos x < pos y))"

record VCF =
  vcf_snps :: "SNP list"
  line_to_snp :: "(int, int) pydict"
  chromosomes :: "string set"

text \<open>
  Lines 46 to 59 of files.py, as far as they read the line only: a header line, a line
  that is counted but dropped (an indel, or fewer than two alleles), or a line that gives
  a SNP with its chromosome, position, id and alleles.
\<close>

datatype vcf_row = Header | Dropped | Retained string int string "string list"

definition vcf_record :: "string \<Rightarrow> py_error + vcf_row" where
  "vcf_record line =
     (case line of
        [] \<Rightarrow> Inl IndexError
      | c # _ \<Rightarrow>
          if c = CHR ''#'' then Inr Header
          else
            (let fields = py_split_on [CHR 0x09] line in
             if length fields < 10 then Inl (ValueError ''not enough values to unpack'')
             else if length fields > 10 then Inl (ValueError ''too many values to unpack'')
             else
               (let chrom = fields ! 0; position = fields ! 1; ident = fields ! 2;
                    ref = fields ! 3; alt = fields ! 4; fmt_names = fields ! 8;
                    sample = fields ! 9
                in if length ref \<noteq> 1 then Inr Dropped
                   else
                     (let fmt = py_dict (zip (py_split_on '':'' fmt_names)
                                             (py_split_on '':'' sample)) in
                      bind (getitem fmt ''GT'') (\<lambda>gt_field.
                        let gt = py_split_on ''/''
                                   (map (\<lambda>c. if c = CHR ''|'' then CHR ''/'' else c) gt_field);
                            all_alleles = [ref] @ py_split_on '','' alt;
                            als = map snd (filter (\<lambda>(i, a). py_str i \<in> set gt \<and> length a = 1)
                                             (enumerate 0 all_alleles))
                        in if length als > 1 then
                             bind (py_int position) (\<lambda>p. Inr (Retained chrom (p - 1) ident als))
                           else Inr Dropped)))))"

text \<open>
  The body of the loop of \<^verbatim>\<open>parse_vcf\<close>: the state is the catalog built so far and
  \<^verbatim>\<open>seen_snps\<close>. Lines 59 to 64 are the last case.
\<close>

definition vcf_step :: "string \<Rightarrow> VCF \<times> nat \<Rightarrow> py_error + VCF \<times> nat" where
  "vcf_step line = (\<lambda>(vcf, seen_snps).
     bind (vcf_record line) (\<lambda>row.
       case row of
         Header \<Rightarrow> Inr (vcf, seen_snps)
       | Dropped \<Rightarrow> Inr (vcf, seen_snps + 1)
       | Retained c p i als \<Rightarrow>
           (let snps = vcf_snps vcf;
                snp = \<lparr>snp_id = length snps, chr = c, pos = p, name = i, alleles = als\<rparr>
            in if snps \<noteq> [] \<and> snp_lt snp (last snps) then Inl (ValueError ''VCF is not sorted'')
               else Inr (\<lparr>vcf_snps = snps @ [snp],
                          line_to_snp = AList.update (int (seen_snps + 1)) (int (length snps))
                                          (line_to_snp vcf),
                          chromosomes = insert c (chromosomes vcf)\<rparr>,
                        seen_snps + 1))))"

definition parse_vcf :: "string list \<Rightarrow> py_error + VCF" where
  "parse_vcf lines =
     bind (fold_err vcf_step lines (\<lparr>vcf_snps = [], line_to_snp = [], chromosomes = {}\<rparr>, 0))
       (\<lambda>(vcf, seen_snps). Inr vcf)"

text \<open>A tab-separated line with its line end, to write example files.\<close>

definition tsv :: "string list \<Rightarrow> string" where
  "tsv cols =
     foldr (\<lambda>f acc. if acc = [] then f else f @ [CHR 0x09] @ acc) cols [] @ [CHR 0x0A]"

text \<open>A catalog of two SNPs, taken from the first two data lines of a VCF file.\<close>

definition example_vcf :: VCF where
  "example_vcf =
     \<lparr>vcf_snps = [\<lparr>snp_id = 0, chr = ''1'', pos = 4, name = ''a'', alleles = [''A'', ''G'']\<rparr>,
                  \<lparr>snp_id = 1, chr = ''1'', pos = 8, name = ''b'', alleles = [''C'', ''G'']\<rparr>],
      line_to_snp = [(1, 0), (2, 1)], chromosomes = {''1''}\<rparr>"

subsection \<open>The fragment matrix\<close>

definition QUALITY_CUTOFF :: nat where
  "QUALITY_CUTOFF = 10"

type_synonym observation = "int \<times> int \<times> char"

text \<open>
  The two \<^verbatim>\<open>parse_fragmat\<close> functions differ in one expression, the first component of
  the tuple they append: \<^verbatim>\<open>snp.id\<close> in files.py (line 241), \<^verbatim>\<open>idx\<close> in datagen.py
  (line 203). The shared text is written once, with that expression as the argument
  \<open>first\<close>, a function of the SNP and of \<^verbatim>\<open>idx\<close>. datagen.py imports
  \<^verbatim>\<open>QUALITY_CUTOFF\<close> from common.py, which is not among the sources; the specification
  gives it the value 10 of files.py.

  The body of \<^verbatim>\<open>for allele in frag[i + 1]\<close>; the state is \<^verbatim>\<open>idx\<close> and \<^verbatim>\<open>alleles\<close>.
  An index that the catalog does not know is passed over without advancing \<^verbatim>\<open>idx\<close>.
\<close>

definition allele_step ::
  "(SNP \<Rightarrow> int \<Rightarrow> int) \<Rightarrow> VCF \<Rightarrow> string \<Rightarrow> char \<Rightarrow> int \<times> observation list
     \<Rightarrow> py_error + int \<times> observation list" where
  "allele_step first vcf qual allele = (\<lambda>(idx, als).
     case map_of (line_to_snp vcf) idx of
       None \<Rightarrow> Inr (idx, als)
     | Some k \<Rightarrow>
         bind (py_index (vcf_snps vcf) k) (\<lambda>snp.
         bind (py_int [allele]) (\<lambda>a.
           if \<not> (0 \<le> a \<and> a < int (length (alleles snp))) then Inl (ValueError ''Invalid allele'')
           else
             bind (nth_err qual (length als)) (\<lambda>q.
             Inr (idx + 1, als @ [(first snp idx, a, q)])))))"

text \<open>The body of \<^verbatim>\<open>for i in range(0, len(frag), 2)\<close>.\<close>

definition run_step ::
  "(SNP \<Rightarrow> int \<Rightarrow> int) \<Rightarrow> VCF \<Rightarrow> string \<Rightarrow> string list \<Rightarrow> nat \<Rightarrow> observation list
     \<Rightarrow> py_error + observation list" where
  "run_step first vcf qual frag i als =
     bind (py_int (frag ! i)) (\<lambda>idx.
     bind (fold_err (allele_step first vcf qual) (frag ! (i + 1)) (idx, als))
       (\<lambda>(idx', als'). Inr als'))"

text \<open>
  One line of the file: an error, \<open>None\<close> for a line dropped by the quality cutoff, or the
  tuple that is yielded.
\<close>

definition fragmat_line ::
  "(SNP \<Rightarrow> int \<Rightarrow> int) \<Rightarrow> VCF \<Rightarrow> string \<Rightarrow> py_error + (string \<times> observation list) option" where
  "fragmat_line first vcf r =
     (let frag = py_split r in
      bind (nth_err frag 1) (\<lambda>name.
        let qual = last frag; frag = butlast (drop 2 frag) in
        if length frag mod 2 = 1 then Inl (ValueError ''fragment file error'')
        else if length qual = 1 \<and> of_char (hd qual) < QUALITY_CUTOFF then Inr None
        else
          bind (fold_err (run_step first vcf qual frag) (filter even [0..<length frag]) [])
            (\<lambda>als. Inr (Some (name, als)))))"

definition fragmat_lines ::
  "(SNP \<Rightarrow> int \<Rightarrow> int) \<Rightarrow> VCF \<Rightarrow> string list
     \<Rightarrow> py_error + (string \<times> observation list) list" where
  "fragmat_lines first vcf fragmat =
     fold_err (\<lambda>r out.
         bind (fragmat_line first vcf r)
           (\<lambda>y. Inr (case y of None \<Rightarrow> out | Some t \<Rightarrow> out @ [t])))
       fragmat []"

text \<open>\<^verbatim>\<open>parse_fragmat\<close> of files.py; the sequence it yields, or the error that ends it.\<close>

definition parse_fragmat ::
  "string list \<Rightarrow> VCF \<Rightarrow> bool \<Rightarrow> py_error + (string \<times> observation list) list" where
  "parse_fragmat fragmat vcf skip_single = fragmat_lines (\<lambda>snp idx. int (snp_id snp)) vcf fragmat"

text \<open>\<^verbatim>\<open>parse_fragmat\<close> of datagen.py.\<close>

definition parse_fragmat_datagen ::
  "string list \<Rightarrow> VCF \<Rightarrow> bool \<Rightarrow> py_error + (string \<times> observation list) list" where
  "parse_fragmat_datagen fragmat vcf skip_single = fragmat_lines (\<lambda>snp idx. idx) vcf fragmat"

subsection \<open>parse\_phases and load\_dna\_data\<close>

text \<open>Lines 251 to 257 of files.py: the reads of all files that pass the filter.\<close>

definition collect_reads ::
  "(string list \<Rightarrow> VCF \<Rightarrow> bool \<Rightarrow> py_error + (string \<times> observation list) list)
     \<Rightarrow> VCF \<Rightarrow> string list list \<Rightarrow> bool \<Rightarrow> py_error + observation list list" where
  "collect_reads parser vcf paths skip_single =
     fold_err (\<lambda>path rs.
         bind (parser path vcf skip_single) (\<lambda>out.
           Inr (rs @ map snd (filter (\<lambda>(name, als). \<not> (skip_single \<and> length als \<le> 1)) out))))
       paths []"

text \<open>Line 262: \<^verbatim>\<open>key = tuple((s, a) for s, a, _ in r)\<close>.\<close>

definition read_key :: "observation list \<Rightarrow> (int \<times> int) list" where
  "read_key r = map (\<lambda>(s, a, q). (s, a)) r"

text \<open>Lines 260 to 266: the counter, a dictionary keyed by these tuples.\<close>

definition count_read ::
  "observation list \<Rightarrow> ((int \<times> int) list, nat) pydict \<Rightarrow> ((int \<times> int) list, nat) pydict" where
  "count_read r read_counter =
     (let key = read_key r in
      case map_of read_counter key of
        None \<Rightarrow> AList.update key 1 read_counter
      | Some n \<Rightarrow> AList.update key (n + 1) read_counter)"

text \<open>Lines 269 and 270: one Read for each entry of the counter, in the order of the entries.\<close>

definition count_reads :: "observation list list \<Rightarrow> Read list" where
  "count_reads rs =
     map (\<lambda>(i, (tup, cnt)). \<lparr>snps = py_dict tup, count = int cnt, read_id = i\<rparr>)
       (enumerate 0 (fold count_read rs []))"

definition parse_phases :: "VCF \<Rightarrow> string list list \<Rightarrow> bool \<Rightarrow> py_error + Read list" where
  "parse_phases vcf paths skip_single =
     bind (collect_reads parse_fragmat vcf paths skip_single) (\<lambda>rs. Inr (count_reads rs))"

definition parse_phases_datagen :: "VCF \<Rightarrow> string list list \<Rightarrow> bool \<Rightarrow> py_error + Read list" where
  "parse_phases_datagen vcf paths skip_single =
     bind (collect_reads parse_fragmat_datagen vcf paths skip_single) (\<lambda>rs. Inr (count_reads rs))"

text \<open>Lines 306 and 307 of files.py, for one read.\<close>

definition set_special :: "Read \<Rightarrow> py_error + DnaRead" where
  "set_special r =
     bind (nth_err (sort (map fst (snps r))) 1) (\<lambda>s.
       Inr \<lparr>snps = snps r, count = count r, read_id = read_id r,
            special_snp = s, rates = [0.5, 0.5]\<rparr>)"

text \<open>
  \<^verbatim>\<open>load_dna_data\<close> of files.py. The \<^verbatim>\<open>Graph\<close> constructor is not among the sources: the
  result is the pair of arguments it is called with, the reads and the ploidy.
\<close>

definition load_dna_data ::
  "VCF \<Rightarrow> string list list \<Rightarrow> Read list option \<Rightarrow> py_error + DnaRead list \<times> nat" where
  "load_dna_data vcf paths rna_reads =
     bind (parse_phases vcf paths True) (\<lambda>rs.
       let rs = (case rna_reads of
                   None \<Rightarrow> rs
                 | Some extra \<Rightarrow> if extra \<noteq> [] then rs @ extra else rs)
       in bind (fold_err (\<lambda>r acc. bind (set_special r) (\<lambda>r'. Inr (acc @ [r']))) rs [])
            (\<lambda>rs'. Inr (rs', 2)))"

subsection \<open>parse\_gtf\<close>

text \<open>
  Modelled from the spec: the \<^verbatim>\<open>Gene\<close> class of rna.py, which is not among the sources;
  its fields are the arguments of the constructor call in \<^verbatim>\<open>parse_gtf\<close>.
\<close>

record Gene =
  gene_id :: nat
  gene_name :: string
  gene_chr :: string
  interval :: "int \<times> int"
  sign :: string
  exons :: "(int \<times> int) list"

text \<open>Line 70: the rows of the file, header lines left out.\<close>

definition gtf_rows :: "string list \<Rightarrow> py_error + string list list" where
  "gtf_rows lines =
     fold_err (\<lambda>a b.
         case a of
           [] \<Rightarrow> Inl IndexError
         | c # _ \<Rightarrow> Inr (if c \<noteq> CHR ''#'' then b @ [py_split_on [CHR 0x09] (take (length a - 2) a)]
                         else b))
       lines []"

text \<open>Lines 72 to 74.\<close>

definition parse_f :: "string \<Rightarrow> py_error + string \<times> string" where
  "parse_f f =
     (case split_once CHR '' '' f of
        [x, y] \<Rightarrow>
          (case y of
             [] \<Rightarrow> Inl IndexError
           | c # _ \<Rightarrow> Inr (x, if c = last y \<and> last y = CHR 0x22 then butlast (tl y) else y))
      | _ \<Rightarrow> Inl (ValueError ''not enough values to unpack''))"

text \<open>
  Lines 88 to 92: the rows after a transcript row up to the next transcript row. The
  result is the list of exons and the number of rows passed.
\<close>

fun exon_rows :: "string list list \<Rightarrow> (int \<times> int) list \<Rightarrow> py_error + (int \<times> int) list \<times> nat" where
  "exon_rows [] exs = Inr (exs, 0)"
| "exon_rows (row # rest) exs =
     bind (nth_err row 2) (\<lambda>feature.
       if feature = ''transcript'' then Inr (exs, 0)
       else
         bind (if feature = ''exon'' then
                 bind (nth_err row 3) (\<lambda>f3. bind (py_int f3) (\<lambda>exon_start.
                 bind (nth_err row 4) (\<lambda>f4. bind (py_int f4) (\<lambda>exon_end.
                 Inr (exs @ [(exon_start, exon_end - exon_start + 1)])))))
               else Inr exs) (\<lambda>exs'.
         bind (exon_rows rest exs') (\<lambda>(exs2, n). Inr (exs2, Suc n))))"

text \<open>Lines 79 to 81: the fields of a transcript row.\<close>

definition transcript_fields ::
  "string list \<Rightarrow> py_error + string \<times> (int \<times> int) \<times> string \<times> string" where
  "transcript_fields row =
     bind (nth_err row 0) (\<lambda>chrom.
     bind (nth_err row 3) (\<lambda>f3. bind (py_int f3) (\<lambda>lo.
     bind (nth_err row 4) (\<lambda>f4. bind (py_int f4) (\<lambda>hi.
     bind (nth_err row 6) (\<lambda>strand.
     bind (nth_err row 8) (\<lambda>info_field.
     Inr (chrom, (lo, hi), strand, info_field))))))))"

text \<open>
  Lines 84 to 95: the gene of a transcript row on a chromosome that is kept, and the index
  of the row at which the loop goes on.
\<close>

definition transcript_gene ::
  "string list list \<Rightarrow> nat \<Rightarrow> nat \<Rightarrow> string \<Rightarrow> int \<times> int \<Rightarrow> string \<Rightarrow> string
     \<Rightarrow> py_error + Gene \<times> nat" where
  "transcript_gene b gi i chrom ival strand info_field =
     bind (fold_err (\<lambda>f kvs. bind (parse_f f) (\<lambda>kv. Inr (kvs @ [kv])))
             (py_split_on ''; '' info_field) []) (\<lambda>kvs.
     let info = py_dict kvs in
     bind (getitem info ''transcript_id'') (\<lambda>tid.
     let gname = (case map_of info ''gene_name'' of None \<Rightarrow> tid | Some g \<Rightarrow> g) in
     bind (exon_rows (drop (i + 1) b) []) (\<lambda>(exs, n).
     Inr (\<lparr>gene_id = gi, gene_name = gname, gene_chr = chrom,
           interval = ival, sign = strand, exons = exs\<rparr>, i + 1 + n))))"

text \<open>
  Lines 77 to 97: the \<^verbatim>\<open>while i < len(b)\<close> loop. Nothing bounds the number of its
  iterations, so the model counts them down from \<open>fuel\<close>: \<open>None\<close> says that the loop has
  not ended within \<open>fuel\<close> iterations, \<open>Some\<close> gives the error or the genes yielded.
  Line 83, \<^verbatim>\<open>continue\<close>, goes back to the test of the loop with \<open>i\<close> as it is.
\<close>

fun gtf_loop ::
  "nat \<Rightarrow> string list list \<Rightarrow> string set \<Rightarrow> nat \<Rightarrow> nat \<Rightarrow> Gene list
     \<Rightarrow> (py_error + Gene list) option" where
  "gtf_loop 0 b chroms gi i genes = None"
| "gtf_loop (Suc fuel) b chroms gi i genes =
     (if i < length b then
        (case nth_err (b ! i) 2 of
           Inl e \<Rightarrow> Some (Inl e)
         | Inr feature \<Rightarrow>
             if feature = ''transcript'' then
               (case transcript_fields (b ! i) of
                  Inl e \<Rightarrow> Some (Inl e)
                | Inr (chrom, ival, strand, info_field) \<Rightarrow>
                    if chrom \<notin> chroms then gtf_loop fuel b chroms gi i genes
                    else
                      (case transcript_gene b gi i chrom ival strand info_field of
                         Inl e \<Rightarrow> Some (Inl e)
                       | Inr (gene, i') \<Rightarrow> gtf_loop fuel b chroms (gi + 1) i' (genes @ [gene])))
             else gtf_loop fuel b chroms gi (i + 1) genes)
      else Some (Inr genes))"

definition parse_gtf :: "nat \<Rightarrow> string list \<Rightarrow> string set \<Rightarrow> (py_error + Gene list) option" where
  "parse_gtf fuel lines chroms =
     (case gtf_rows lines of
        Inl e \<Rightarrow> Some (Inl e)
      | Inr b \<Rightarrow> gtf_loop fuel b chroms 0 0 [])"

section \<open>Notions of the specification\<close>

text \<open>
  The retained SNPs of a VCF file, as the specification speaks of them: the data lines that
  give a SNP, in file order, each numbered by its place among them.
\<close>

definition retained_rows :: "string list \<Rightarrow> (string \<times> int \<times> string \<times> string list) list" where
  "retained_rows lines =
     concat (map (\<lambda>l. case vcf_record l of Inr (Retained c p i a) \<Rightarrow> [(c, p, i, a)] | _ \<Rightarrow> []) lines)"

definition number_snps :: "nat \<Rightarrow> (string \<times> int \<times> string \<times> string list) list \<Rightarrow> SNP list" where
  "number_snps n rows =
     map (\<lambda>(k, (c, p, i, a)). \<lparr>snp_id = k, chr = c, pos = p, name = i, alleles = a\<rparr>)
       (enumerate n rows)"

text \<open>The distinct elements of a list in the order in which they are first seen.\<close>

definition first_seen :: "'a list \<Rightarrow> 'a list" where
  "first_seen xs = rev (remdups (rev xs))"

section \<open>Properties\<close>

lemma bind_Inr: "bind (Inr x) f = f x"
  by (simp add: bind_def)

lemma bind_Inl: "bind (Inl e) f = Inl e"
  by (simp add: bind_def)

subsection \<open>prune\<close>

text \<open>Without NaN, \<^verbatim>\<open><\<close> on floats is a strict order, and \<^verbatim>\<open>min\<close> returns a least item.\<close>

lemma flt_trans: "flt a b \<Longrightarrow> flt b c \<Longrightarrow> flt a c"
  by (cases a; cases b; cases c) auto

lemma flt_cotrans: "b \<noteq> NaN \<Longrightarrow> \<not> flt a b \<Longrightarrow> flt a c \<Longrightarrow> flt b c"
  by (cases a; cases b; cases c) auto

lemma fold_min_least:
  assumes "\<forall>s \<in> set (best # ss). s \<noteq> NaN"
  shows "fold (\<lambda>item best. if flt item best then item else best) ss best \<in> set (best # ss)
       \<and> (\<forall>s \<in> set (best # ss).
            \<not> flt s (fold (\<lambda>item best. if flt item best then item else best) ss best))"
  using assms
proof (induction ss arbitrary: best)
  case Nil
  then show ?case by (cases best) auto
next
  case (Cons z zs)
  let ?f = "\<lambda>item best. if flt item best then item else best"
  let ?b = "if flt z best then z else best"
  let ?r = "fold ?f zs ?b"
  from Cons.prems have nn: "\<forall>s \<in> set (?b # zs). s \<noteq> NaN" by auto
  from Cons.IH [OF nn] have mem: "?r \<in> set (?b # zs)"
    and least: "\<forall>s \<in> set (?b # zs). \<not> flt s ?r" by blast+
  from least have b: "\<not> flt ?b ?r" by simp
  have zb: "\<not> flt z ?r \<and> \<not> flt best ?r"
  proof (cases "flt z best")
    case True
    with b have "\<not> flt z ?r" by simp
    moreover from this True have "\<not> flt best ?r" using flt_trans by blast
    ultimately show ?thesis by simp
  next
    case False
    with b have nb: "\<not> flt best ?r" by simp
    from Cons.prems have "best \<noteq> NaN" by simp
    from flt_cotrans [OF this False] nb have "\<not> flt z ?r" by blast
    with nb show ?thesis by simp
  qed
  have "fold ?f (z # zs) best = ?r" by simp
  moreover from mem have "?r \<in> set (best # z # zs)" by (auto split: if_splits)
  moreover from least zb have "\<forall>s \<in> set (best # z # zs). \<not> flt s ?r" by auto
  ultimately show ?case by simp
qed

lemma py_min_least_finite:
  assumes nn: "\<forall>s \<in> set ss. s \<noteq> NaN \<and> s \<noteq> NInf"
    and m: "Fin m \<in> set ss"
    and least: "\<forall>x. Fin x \<in> set ss \<longrightarrow> m \<le> x"
  shows "py_min ss = Inr (Fin m)"
proof -
  from m obtain y ys where ss: "ss = y # ys" by (cases ss) auto
  let ?r = "fold (\<lambda>item best. if flt item best then item else best) ys y"
  from nn ss have "\<forall>s \<in> set (y # ys). s \<noteq> NaN" by auto
  from fold_min_least [OF this] have mem: "?r \<in> set ss" and lst: "\<forall>s \<in> set ss. \<not> flt s ?r"
    unfolding ss by blast+
  from lst m have nlt: "\<not> flt (Fin m) ?r" by blast
  have "?r = Fin m"
  proof (cases ?r)
    case (Fin x)
    with nlt have "x \<le> m" by simp
    moreover from Fin mem least have "m \<le> x" by metis
    ultimately show ?thesis using Fin by simp
  next
    case PInf
    with nlt show ?thesis by simp
  next
    case NInf
    with mem nn show ?thesis by metis
  next
    case NaN
    with mem nn show ?thesis by metis
  qed
  then show ?thesis by (simp add: py_min_def ss)
qed

lemma prune_threshold_table:
  "prune_threshold fl n is_last =
     fl_add fl \<bar>fl_log fl (if is_last then 1 else if 1000 < n then lit_0_1
                            else if 500 < n then lit_0_05
                            else if 100 < n then lit_0_01 else lit_0_001)\<bar> lit_0_0001"
  by (simp add: prune_threshold_def)

lemma flt_PInf: "\<not> flt PInf t"
  by (cases t) auto

lemma near_min:
  "s \<noteq> NaN \<Longrightarrow> s \<noteq> NInf \<Longrightarrow>
   flt (fabs (rsub fl s (Fin m))) t = (\<exists>x. s = Fin x \<and> flt (fabs (fl_sub fl x m)) t)"
  by (cases s) (simp_all add: rsub_def fsub_def flt_PInf)

text \<open>
  C3, amended. For a Phase list whose scores are finite or \<open>+inf\<close>, at least one of them
  finite, let \<open>m\<close> be the least score. \<^verbatim>\<open>prune\<close> keeps exactly the Phases of finite score
  whose float difference to \<open>m\<close> is, in absolute value, less than the float window
  \<open>\<bar>log w\<bar> + 0.0001\<close>, with \<open>w = 1\<close> at the final SNP and otherwise the float \<open>0.1\<close>,
  \<open>0.05\<close>, \<open>0.01\<close> or \<open>0.001\<close> for a list of more than 1000, more than 500, more than 100
  or fewer Phases. Difference, logarithm and sum are the results of the float operations,
  whatever their rounding, as long as \<open>m - m\<close> is 0. Where the window so computed is
  positive, \<^verbatim>\<open>prune\<close> returns at the final SNP exactly one of these survivors, and a
  single candidate is returned as it is, final step or not.
\<close>

theorem prune_least_finite:
  assumes nn: "\<forall>p \<in> set phases. score p \<noteq> NaN \<and> score p \<noteq> NInf"
    and m: "Fin m \<in> score ` set phases"
    and least: "\<forall>x. Fin x \<in> score ` set phases \<longrightarrow> m \<le> x"
    and sub0: "fl_sub fl m m = Fin 0"
  shows "let w = (if is_last then 1 else if 1000 < length phases then lit_0_1
                  else if 500 < length phases then lit_0_05
                  else if 100 < length phases then lit_0_01 else lit_0_001);
             window = fl_add fl \<bar>fl_log fl w\<bar> lit_0_0001;
             kept = filter (\<lambda>p. \<exists>x. score p = Fin x \<and> flt (fabs (fl_sub fl x m)) window) phases
         in (\<not> is_last \<longrightarrow> prune fl rnd phases is_last = Inr kept)
          \<and> (flt (Fin 0) window \<longrightarrow>
               (is_last \<longrightarrow> (\<exists>p \<in> set kept. prune fl rnd phases is_last = Inr [p]))
             \<and> (length phases = 1 \<longrightarrow> prune fl rnd phases is_last = Inr phases))"
proof -
  define t where "t = prune_threshold fl (length phases) is_last"
  define kept where
    "kept = filter (\<lambda>p. \<exists>x. score p = Fin x \<and> flt (fabs (fl_sub fl x m)) t) phases"
  have minv: "py_min (map score phases) = Inr (Fin m)"
    using nn m least by (intro py_min_least_finite) auto
  have filt: "filter (\<lambda>p. flt (fabs (rsub fl (score p) (Fin m))) t) phases = kept"
    unfolding kept_def
    by (rule filter_cong [OF refl]) (use nn in \<open>simp add: near_min\<close>)
  have not_last: "prune fl rnd phases is_last = Inr kept" if "\<not> is_last"
    using that minv filt by (simp add: prune_def bind_def t_def)
  from m obtain p0 where p0: "p0 \<in> set phases" "score p0 = Fin m" by auto
  have rest: "(is_last \<longrightarrow> (\<exists>p \<in> set kept. prune fl rnd phases is_last = Inr [p]))
      \<and> (length phases = 1 \<longrightarrow> prune fl rnd phases is_last = Inr phases)" if tpos: "flt (Fin 0) t"
  proof -
    from p0 tpos sub0 have "p0 \<in> set kept" by (simp add: kept_def)
    then have kept_ne: "kept \<noteq> []" by auto
    have last: "\<exists>p \<in> set kept. prune fl rnd phases is_last = Inr [p]" if "is_last"
    proof -
      have "prune fl rnd phases is_last = Inr [kept ! (rnd mod length kept)]"
        using that minv filt kept_ne by (simp add: prune_def bind_def t_def choice_def)
      moreover have "kept ! (rnd mod length kept) \<in> set kept"
        using kept_ne by simp
      ultimately show ?thesis by blast
    qed
    have single: "prune fl rnd phases is_last = Inr phases" if "length phases = 1"
    proof -
      from that obtain p where p: "phases = [p]" by (cases phases) auto
      with p0 have sp: "score p = Fin m" by simp
      with tpos sub0 p have k: "kept = [p]" by (simp add: kept_def)
      show ?thesis
      proof (cases is_last)
        case True
        with last k p show ?thesis by auto
      next
        case False
        with not_last k p show ?thesis by simp
      qed
    qed
    from last single show ?thesis by blast
  qed
  show ?thesis
    using not_last rest
    unfolding Let_def kept_def t_def prune_threshold_table by blast
qed

text \<open>
  A candidate of score \<open>+inf\<close> beside finite ones is pruned away. At this input no
  operation rounds.
\<close>

theorem prune_least_finite_witness:
  "fl_sub exact_ops 0 0 = Fin 0
   \<and> flt (Fin 0) (fl_add exact_ops \<bar>fl_log exact_ops 1\<bar> lit_0_0001)
   \<and> prune exact_ops 0 [\<lparr>haplotypes = [0, 0], score = PInf\<rparr>, \<lparr>haplotypes = [1, 1], score = Fin 0\<rparr>,
            \<lparr>haplotypes = [2, 2], score = Fin 1\<rparr>] True
       = Inr [\<lparr>haplotypes = [1, 1], score = Fin 0\<rparr>]"
  using prune_least_finite [of "[\<lparr>haplotypes = [0, 0], score = PInf\<rparr>,
      \<lparr>haplotypes = [1, 1], score = Fin 0\<rparr>, \<lparr>haplotypes = [2, 2], score = Fin 1\<rparr>]" 0
      exact_ops True 0]
  by (simp add: exact_ops_def lit_0_0001_def)

text \<open>
  C3 as stated fails when no score is finite: with the single candidate of score
  \<open>+inf\<close> (what \<^verbatim>\<open>score - costs[i]\<close> gives for a cost of \<open>-inf\<close>) the difference to the
  minimum is \<open>inf - inf = nan\<close>, no comparison with NaN holds, and the candidate is
  dropped: the result is empty, and at the final SNP \<^verbatim>\<open>choice\<close> raises on the empty list.
  No finite float takes part, so the float operations play no role.
\<close>

theorem prune_infinite_score_counterexample:
  "prune exact_ops 0 [\<lparr>haplotypes = [0, 0], score = PInf\<rparr>] False = Inr []
   \<and> prune exact_ops 0 [\<lparr>haplotypes = [0, 0], score = PInf\<rparr>] True = Inl IndexError"
  by (simp add: prune_def bind_def py_min_def rsub_def fsub_def choice_def flt_PInf)

text \<open>The same holds for any float operations, draw and haplotypes.\<close>

lemma prune_infinite_score_any_ops:
  "prune fl rnd [\<lparr>haplotypes = hs, score = PInf\<rparr>] False = Inr []
   \<and> prune fl rnd [\<lparr>haplotypes = hs, score = PInf\<rparr>] True = Inl IndexError"
  by (simp add: prune_def bind_def py_min_def rsub_def fsub_def choice_def flt_PInf)

text \<open>
  A score at the edge: when the window for a short list is the float \<open>t\<close>, a Phase whose
  score is \<open>t\<close> above the least score 0 is dropped, because \<open>t < t\<close> does not hold.
\<close>

lemma prune_boundary_dropped:
  assumes "fl_add fl \<bar>fl_log fl lit_0_001\<bar> lit_0_0001 = Fin t" and "fl_sub fl t 0 = Fin t"
    and "fl_sub fl 0 0 = Fin 0" and "0 < t"
  shows "prune fl rnd [\<lparr>haplotypes = hs, score = Fin 0\<rparr>, \<lparr>haplotypes = hs', score = Fin t\<rparr>] False
     = Inr [\<lparr>haplotypes = hs, score = Fin 0\<rparr>]"
  using assms by (simp add: prune_def prune_threshold_def bind_def py_min_def rsub_def)

subsection \<open>read\_val\_tail\<close>

lemma error_model_zero: "error_model 0 = Inr (1, 0)"
  by (simp add: error_model_def py_div_def bind_def)

text \<open>
  When no haplotype disagrees with a read at \<open>last_snp\<close>, the sentinel is reached: here both
  haplotypes are the same dictionary content, the read disagrees with it at SNP 0 only,
  \<^verbatim>\<open>probs\<close> is 0 and the result is \<open>-inf\<close>.
\<close>

lemma read_val_tail_sentinel_example:
  "read_val_tail [[(0, VInt 1), (1, VInt 1)], [(0, VInt 1), (1, VInt 1)]] (1/2) 0
       [\<lparr>snps = [(0, 0), (1, 1)], count = 1, read_id = 0, special_snp = 1, rates = [1/2, 1/2]\<rparr>]
       1 0
     = Inr NInf"
  by (simp add: read_val_tail_def error_model_def py_div_def bind_def read_step_def
      haplo_step_def snp_factor_def nth_err_def getitem_def CONFIDENCE_def enumerate_eq_zip
      py_log_def fsub_def)

text \<open>
  With \<open>error = 0\<close>: as soon as the first haplotype disagrees with the first read at
  \<open>last_snp\<close> (and holds the SNPs of the read that the loop looks up), the call ends with
  ZeroDivisionError, whatever the other haplotypes and reads are.
\<close>

lemma snp_factor_loop_returns:
  assumes "\<forall>(snp, allele) \<in> set xs. snp \<le> last_snp \<longrightarrow> map_of haplo snp \<noteq> None"
  shows "\<exists>prob'. fold_err (snp_factor a b haplo last_snp) xs prob = Inr prob'"
  using assms
proof (induction xs arbitrary: prob)
  case Nil
  show ?case by simp
next
  case (Cons x xs)
  obtain snp allele where x: "x = (snp, allele)" by (cases x)
  from Cons.prems x have "snp \<le> last_snp \<longrightarrow> (\<exists>h. map_of haplo snp = Some h)" by auto
  then have "\<exists>p. snp_factor a b haplo last_snp x prob = Inr p"
    by (cases "snp \<le> last_snp") (auto simp: x snp_factor_def getitem_def bind_def)
  then obtain p where "snp_factor a b haplo last_snp x prob = Inr p" ..
  moreover from Cons.prems
  have "\<exists>prob'. fold_err (snp_factor a b haplo last_snp) xs p = Inr prob'"
    by (intro Cons.IH) auto
  ultimately show ?case by simp
qed

lemma read_val_tail_error0_mismatch:
  assumes rate: "rates r \<noteq> []"
    and keys: "\<forall>(snp, allele) \<in> set (snps r). snp \<le> last_snp \<longrightarrow> map_of h0 snp \<noteq> None"
    and ra: "map_of (snps r) last_snp = Some ra"
    and ha: "map_of h0 last_snp = Some ha"
    and differ: "VInt ra \<noteq> ha"
  shows "read_val_tail (h0 # hs) pair_threshold 0 (r # rs) last_snp prev_snp
     = Inl ZeroDivisionError"
proof -
  from rate have r0: "nth_err (rates r) 0 = Inr (rates r ! 0)"
    by (simp add: nth_err_def)
  from snp_factor_loop_returns [OF keys]
  obtain prob where prob: "fold_err (snp_factor 1 0 h0 last_snp) (snps r)
      ((CONFIDENCE * (rates r ! 0)) + (0.5 * (1 - CONFIDENCE))) = Inr prob"
    by blast
  have "haplo_step 1 0 r last_snp (0, h0) (0, 0) = Inl ZeroDivisionError"
    unfolding haplo_step_def case_prod_conv r0 bind_Inr prob
    using differ by (simp add: ra ha getitem_def bind_Inr py_div_def bind_Inl)
  then have "read_step 1 0 (h0 # hs) last_snp r (Fin 0, 0) = Inl ZeroDivisionError"
    by (simp add: read_step_def bind_Inl)
  then show ?thesis
    by (simp add: read_val_tail_def error_model_def py_div_def bind_Inr bind_Inl)
qed

text \<open>
  C4. With \<open>error = 0\<close> the constants are \<open>a = 1\<close> and \<open>b = 0\<close>. The claim is that a read
  whose mixture likelihood is 0 makes \<^verbatim>\<open>read_val_tail\<close> return \<open>-inf\<close> without a failure.
  The code divides by \<open>b\<close> for each haplotype that disagrees with the read at \<open>last_snp\<close>
  (line 44) before it tests \<^verbatim>\<open>probs == 0\<close> (line 46): for the read \<open>{0: 0, 1: 1}\<close> against
  the haplotypes \<open>{0: 0, 1: 0}\<close> and \<open>{0: 1, 1: 1}\<close>, which it contradicts both, the division
  \<open>0.0 / 0.0\<close> raises ZeroDivisionError.
\<close>

theorem read_val_tail_error0_raises:
  "error_model 0 = Inr (1, 0)
   \<and> read_val_tail [[(0, VInt 0), (1, VInt 0)], [(0, VInt 1), (1, VInt 1)]] (1/2) 0
       [\<lparr>snps = [(0, 0), (1, 1)], count = 1, read_id = 0, special_snp = 1, rates = [1/2, 1/2]\<rparr>]
       1 0
     = Inl ZeroDivisionError"
  by (simp add: read_val_tail_def error_model_def py_div_def bind_def read_step_def
      haplo_step_def snp_factor_def nth_err_def getitem_def CONFIDENCE_def enumerate_eq_zip)

subsection \<open>branch\<close>

lemma branch_raises: "phases \<noteq> [] \<Longrightarrow>
  branch st phases snp prev_snp relevant_reads threshold pair_threshold error n = Inl TypeError"
  by (cases phases)
    (simp_all add: branch_def branch_phase_def score_config_def assign_config_def iter_int_def
      bind_def enumerate_eq_zip)

text \<open>
  C2. The claim is that \<^verbatim>\<open>branch\<close> returns, for a non-empty list of Phases, the Phases
  extended by the permutations within the threshold. The code raises TypeError on every
  non-empty list: \<^verbatim>\<open>configs\<close> is a one-element tuple (line 81), and line 85 iterates
  over the int \<^verbatim>\<open>len(config)\<close>. Here for one Phase of score 0 with two haplotypes,
  SNP 0, no previous SNP, no reads, threshold 0, pair threshold 0.5, error 0.01 and
  ploidy 2.
\<close>

theorem branch_type_error:
  "branch [[]] [\<lparr>haplotypes = [0, 0], score = Fin 0\<rparr>] 0 (- 1) [] 0 (1/2) (1/100) 2
     = Inl TypeError"
  by (simp add: branch_raises)

subsection \<open>parallel\<close>

lemma parallel_loop_trace_subset:
  "set (fst (parallel_loop fl rnd graph all_nodes thr pt err xs st phases allow prev)) \<subseteq> set xs"
proof (induction xs arbitrary: st phases allow prev)
  case Nil
  show ?case by simp
next
  case (Cons x xs)
  show ?case
  proof (cases allow)
    case False
    with Cons [of st phases True x] show ?thesis by auto
  next
    case True
    show ?thesis
    proof (cases "bind (branch st phases x prev (snp_reads graph x) thr pt err (ploidy graph))
                (\<lambda>(st', ps). bind (prune fl rnd ps (x = last all_nodes)) (\<lambda>ps'. Inr (st', ps')))")
      case (Inl e)
      with True show ?thesis by simp
    next
      case (Inr sp)
      obtain st' ps' where sp: "sp = (st', ps')" by (cases sp)
      from Cons [of st' ps' True x] Inr sp True show ?thesis
        by (auto simp: split_beta)
    qed
  qed
qed

lemma parallel_loop_trace_first:
  "hd (fst (parallel_loop fl rnd graph all_nodes thr pt err (x # xs) st phases True prev)) = x
   \<and> fst (parallel_loop fl rnd graph all_nodes thr pt err (x # xs) st phases True prev) \<noteq> []"
  by (auto simp: split_beta split: sum.splits)

text \<open>
  A component with one SNP shows the difference without the trace: called as \<^verbatim>\<open>phase\<close>
  calls it, \<^verbatim>\<open>parallel\<close> ends with the error of \<^verbatim>\<open>branch\<close>; with
  \<^verbatim>\<open>allow_allele_permutations=False\<close> it returns the initial Phase untouched. Neither
  run reaches \<^verbatim>\<open>prune\<close>, so the float operations given are of no account.
\<close>

lemma parallel_single_node_example:
  "snd (parallel exact_ops 0 [] \<lparr>ploidy = 2, components = [(3, \<lparr>nodes = [3]\<rparr>)], snp_reads = (\<lambda>_. [])\<rparr>
          3 0 (1/2) (1/100) True) = Inl TypeError
   \<and> snd (parallel exact_ops 0 [] \<lparr>ploidy = 2, components = [(3, \<lparr>nodes = [3]\<rparr>)], snp_reads = (\<lambda>_. [])\<rparr>
          3 0 (1/2) (1/100) False) = Inr ([[]], \<lparr>haplotypes = [0, 0], score = Fin 0\<rparr>)"
  by (simp add: parallel_def init_phases_def new_dict_def getitem_def branch_raises bind_def
      nth_err_def numeral_2_eq_2)

lemma phase_example:
  "phase exact_ops 0 [] \<lparr>ploidy = 2, components = [(3, \<lparr>nodes = [3, 7]\<rparr>)], snp_reads = (\<lambda>_. [])\<rparr>
     (1/2) (1/2) (1/100) = Inl TypeError"
  by (simp add: phase_def py_div_def py_log_def parallel_def init_phases_def new_dict_def
      getitem_def branch_raises bind_def)

text \<open>
  C1, amended. Whether the first SNP of a component is branched depends on
  \<^verbatim>\<open>allow_allele_permutations\<close>. With \<^verbatim>\<open>True\<close>, the default that \<^verbatim>\<open>phase\<close> uses, the
  first call of \<^verbatim>\<open>branch\<close> is at the first SNP of the component's node list. Only with
  \<^verbatim>\<open>False\<close> is the first SNP left out: every call of \<^verbatim>\<open>branch\<close> is then at a SNP of the
  rest of the list.
\<close>

theorem parallel_first_snp_gated:
  assumes "getitem (components graph) root_snp = Inr c" and "nodes c = s # rest"
  shows "fst (parallel fl rnd st graph root_snp thr pt err True) \<noteq> []
         \<and> hd (fst (parallel fl rnd st graph root_snp thr pt err True)) = s
         \<and> set (fst (parallel fl rnd st graph root_snp thr pt err False)) \<subseteq> set rest"
proof -
  obtain st0 phases where init: "init_phases st (ploidy graph) = (st0, phases)"
    by (cases "init_phases st (ploidy graph)")
  have t: "fst (parallel fl rnd st graph root_snp thr pt err allow)
      = fst (parallel_loop fl rnd graph (s # rest) thr pt err (s # rest) st0 phases allow (- 1))"
    for allow
    using assms init by (simp add: parallel_def split_beta)
  have "set (fst (parallel_loop fl rnd graph (s # rest) thr pt err (s # rest) st0 phases False (- 1)))
      \<subseteq> set rest"
    using parallel_loop_trace_subset [of fl rnd graph "s # rest" thr pt err rest st0 phases True s]
    by simp
  with t parallel_loop_trace_first [of fl rnd graph "s # rest" thr pt err s rest st0 phases "- 1"]
  show ?thesis by simp
qed

theorem parallel_first_snp_gated_witness:
  "fst (parallel exact_ops 0 [] \<lparr>ploidy = 2, components = [(3, \<lparr>nodes = [3, 7]\<rparr>)], snp_reads = (\<lambda>_. [])\<rparr>
          3 0 (1/2) (1/100) True) \<noteq> []
   \<and> hd (fst (parallel exact_ops 0 [] \<lparr>ploidy = 2, components = [(3, \<lparr>nodes = [3, 7]\<rparr>)], snp_reads = (\<lambda>_. [])\<rparr>
          3 0 (1/2) (1/100) True)) = 3
   \<and> set (fst (parallel exact_ops 0 [] \<lparr>ploidy = 2, components = [(3, \<lparr>nodes = [3, 7]\<rparr>)], snp_reads = (\<lambda>_. [])\<rparr>
          3 0 (1/2) (1/100) False)) \<subseteq> {7}"
  using parallel_first_snp_gated [of "\<lparr>ploidy = 2, components = [(3, \<lparr>nodes = [3, 7]\<rparr>)], snp_reads = (\<lambda>_. [])\<rparr>"
      3 "\<lparr>nodes = [3, 7]\<rparr>" 3 "[7]" exact_ops 0 "[]" 0 "1/2" "1/100"]
  by (simp add: getitem_def)

text \<open>
  C1 as stated fails: for the component with nodes 3 and 7, called as \<^verbatim>\<open>phase\<close> calls it,
  \<^verbatim>\<open>parallel\<close> calls \<^verbatim>\<open>branch\<close> at SNP 3, the first SNP, and ends with the error of
  that call.
\<close>

theorem parallel_branches_first_snp_counterexample:
  "fst (parallel exact_ops 0 [] \<lparr>ploidy = 2, components = [(3, \<lparr>nodes = [3, 7]\<rparr>)], snp_reads = (\<lambda>_. [])\<rparr>
          3 0 (1/2) (1/100) True) = [3]
   \<and> snd (parallel exact_ops 0 [] \<lparr>ploidy = 2, components = [(3, \<lparr>nodes = [3, 7]\<rparr>)], snp_reads = (\<lambda>_. [])\<rparr>
          3 0 (1/2) (1/100) True) = Inl TypeError"
  by (simp add: parallel_def init_phases_def new_dict_def getitem_def branch_raises bind_def)

text \<open>
  C6. The Phase that \<^verbatim>\<open>parallel\<close> starts from holds the same dictionary object at every
  haplotype position, and so does every Phase \<open>q\<close> that took over its list of haplotypes
  without a copy. In any later store, an assignment made through one haplotype of \<open>q\<close> is
  read back through every other one, and two haplotypes of \<open>q\<close> never differ.
\<close>

theorem init_phases_share_one_dict:
  assumes "init_phases st n = (st', ps)" and "p \<in> set ps" and "haplotypes q = haplotypes p"
    and "j < n" and "k < n" and "length st' \<le> length st''"
  shows "haplotypes q ! j = haplotypes q ! k
       \<and> getitem (deref (setitem st'' (haplotypes q ! j) snp v) (haplotypes q ! k)) snp = Inr v
       \<and> deref st'' (haplotypes q ! j) = deref st'' (haplotypes q ! k)"
proof -
  from assms(1,2) have hp: "haplotypes p = replicate n (length st)" and len: "length st' = Suc (length st)"
    by (auto simp: init_phases_def new_dict_def)
  with assms have same: "haplotypes q ! j = length st" "haplotypes q ! k = length st"
    by simp_all
  from len assms(6) have "length st < length st''" by simp
  then have "getitem (deref (setitem st'' (length st) snp v) (length st)) snp = Inr v"
    by (simp add: getitem_def deref_def setitem_def update_conv')
  with same show ?thesis by simp
qed

theorem init_phases_share_one_dict_witness:
  "init_phases [] 2 = ([[]], [\<lparr>haplotypes = [0, 0], score = Fin 0\<rparr>])
   \<and> getitem (deref (setitem [[]] ([0, 0] ! 0) 5 (VInt 1)) ([0, 0] ! 1)) 5 = Inr (VInt 1)"
  using init_phases_share_one_dict [of "[]" 2 "[[]]" "[\<lparr>haplotypes = [0, 0], score = Fin 0\<rparr>]"
      "\<lparr>haplotypes = [0, 0], score = Fin 0\<rparr>" "\<lparr>haplotypes = [0, 0], score = Fin 0\<rparr>" 0 1 "[[]]" 5 "VInt 1"]
  by (simp add: init_phases_def new_dict_def numeral_2_eq_2)

subsection \<open>parse\_vcf\<close>

lemma number_snps_ids: "k < length (number_snps n rows) \<Longrightarrow> snp_id (number_snps n rows ! k) = n + k"
  by (simp add: number_snps_def nth_enumerate_eq split_beta)

text \<open>
  The loop from any state whose SNPs are in order: it ends with the new SNPs appended, or
  with the error when one of them sorts before its predecessor.
\<close>

lemma vcf_loop:
  assumes "\<forall>l \<in> set lines. \<exists>row. vcf_record l = Inr row"
    and "successively (\<lambda>prev new. \<not> snp_lt new prev) (vcf_snps vcf)"
  shows "if successively (\<lambda>prev new. \<not> snp_lt new prev)
             (vcf_snps vcf @ number_snps (length (vcf_snps vcf)) (retained_rows lines))
         then \<exists>vcf' n. fold_err vcf_step lines (vcf, seen) = Inr (vcf', n)
                \<and> vcf_snps vcf' = vcf_snps vcf @ number_snps (length (vcf_snps vcf)) (retained_rows lines)
         else fold_err vcf_step lines (vcf, seen) = Inl (ValueError ''VCF is not sorted'')"
  using assms
proof (induction lines arbitrary: vcf seen)
  case Nil
  then show ?case by (simp add: retained_rows_def number_snps_def)
next
  case (Cons l ls)
  let ?ok = "\<lambda>prev new. \<not> snp_lt new prev"
  let ?S = "vcf_snps vcf"
  from Cons.prems(1) obtain row where row: "vcf_record l = Inr row" by auto
  from Cons.prems(1) have wf: "\<forall>l \<in> set ls. \<exists>row. vcf_record l = Inr row" by simp
  show ?case
  proof (cases row)
    case Header
    with row have step: "vcf_step l (vcf, seen) = Inr (vcf, seen)"
      and rows: "retained_rows (l # ls) = retained_rows ls"
      by (simp_all add: vcf_step_def bind_def retained_rows_def)
    from Cons.IH [OF wf Cons.prems(2), of seen] step rows show ?thesis
      by (auto split: if_splits)
  next
    case Dropped
    with row have step: "vcf_step l (vcf, seen) = Inr (vcf, seen + 1)"
      and rows: "retained_rows (l # ls) = retained_rows ls"
      by (simp_all add: vcf_step_def bind_def retained_rows_def)
    from Cons.IH [OF wf Cons.prems(2), of "seen + 1"] step rows show ?thesis
      by (auto split: if_splits)
  next
    case (Retained c p i a)
    define snp where "snp = \<lparr>snp_id = length ?S, chr = c, pos = p, name = i, alleles = a\<rparr>"
    from Retained row have rows: "retained_rows (l # ls) = (c, p, i, a) # retained_rows ls"
      by (simp add: retained_rows_def)
    have num: "number_snps (length ?S) (retained_rows (l # ls))
        = snp # number_snps (Suc (length ?S)) (retained_rows ls)"
      by (simp add: rows number_snps_def snp_def)
    show ?thesis
    proof (cases "?S \<noteq> [] \<and> snp_lt snp (last ?S)")
      case True
      with Retained row have "vcf_step l (vcf, seen) = Inl (ValueError ''VCF is not sorted'')"
        by (simp add: vcf_step_def bind_def snp_def Let_def)
      moreover from True
      have "\<not> successively ?ok (?S @ snp # number_snps (Suc (length ?S)) (retained_rows ls))"
        by (simp add: successively_append_iff)
      ultimately show ?thesis by (simp add: num)
    next
      case False
      define vcf' where "vcf' = \<lparr>vcf_snps = ?S @ [snp],
          line_to_snp = AList.update (int (seen + 1)) (int (length ?S)) (line_to_snp vcf),
          chromosomes = insert c (chromosomes vcf)\<rparr>"
      from False Retained row have step: "vcf_step l (vcf, seen) = Inr (vcf', seen + 1)"
        by (auto simp add: vcf_step_def bind_def snp_def Let_def vcf'_def)
      from False Cons.prems(2) have ok': "successively ?ok (vcf_snps vcf')"
        by (auto simp add: vcf'_def successively_append_iff)
      have eq: "vcf_snps vcf' @ number_snps (length (vcf_snps vcf')) (retained_rows ls)
          = ?S @ number_snps (length ?S) (retained_rows (l # ls))"
        by (simp add: vcf'_def num)
      from Cons.IH [OF wf ok', of "seen + 1"] step show ?thesis
        unfolding eq by (auto split: if_splits)
    qed
  qed
qed

text \<open>Three data lines: SNPs on chromosome 1 at the positions 5, 5 and 4 of the file.\<close>

lemma vcf_record_a:
  "vcf_record (tsv [''1'', ''5'', ''a'', ''A'', ''G'', ''.'', ''.'', ''.'', ''GT:X'', ''0/1:9''])
   = Inr (Retained ''1'' 4 ''a'' [''A'', ''G''])"
  by code_simp

lemma vcf_record_b:
  "vcf_record (tsv [''1'', ''5'', ''b'', ''C'', ''G'', ''.'', ''.'', ''.'', ''GT:X'', ''0/1:9''])
   = Inr (Retained ''1'' 4 ''b'' [''C'', ''G''])"
  by code_simp

lemma vcf_record_c:
  "vcf_record (tsv [''1'', ''4'', ''c'', ''C'', ''G'', ''.'', ''.'', ''.'', ''GT:X'', ''0/1:9''])
   = Inr (Retained ''1'' 3 ''c'' [''C'', ''G''])"
  by code_simp

text \<open>
  C7, amended. For a file whose lines all parse (ten tab-separated fields on a data line, a
  GT entry, an integer position where the SNP is retained), \<^verbatim>\<open>parse_vcf\<close> fails with the
  ValueError "VCF is not sorted" exactly when some retained SNP sorts strictly before the
  SNP retained before it, in (chromosome, position) order; a SNP that compares equal to
  its predecessor is accepted. Otherwise the catalog holds every retained SNP in file
  order, each with the id that is its place in the catalog.
\<close>

theorem parse_vcf_order_check:
  assumes "\<forall>l \<in> set lines. \<exists>row. vcf_record l = Inr row"
  shows "let R = number_snps 0 (retained_rows lines) in
         (\<forall>k < length R. snp_id (R ! k) = k) \<and>
         (if successively (\<lambda>prev new. \<not> snp_lt new prev) R
          then \<exists>vcf. parse_vcf lines = Inr vcf \<and> vcf_snps vcf = R
          else parse_vcf lines = Inl (ValueError ''VCF is not sorted''))"
proof -
  have ids: "\<forall>k < length (number_snps 0 (retained_rows lines)).
      snp_id (number_snps 0 (retained_rows lines) ! k) = k"
    by (simp add: number_snps_ids)
  from vcf_loop [OF assms, of "\<lparr>vcf_snps = [], line_to_snp = [], chromosomes = {}\<rparr>" 0]
  have "if successively (\<lambda>prev new. \<not> snp_lt new prev) (number_snps 0 (retained_rows lines))
         then \<exists>vcf. parse_vcf lines = Inr vcf \<and> vcf_snps vcf = number_snps 0 (retained_rows lines)
         else parse_vcf lines = Inl (ValueError ''VCF is not sorted'')"
    by (auto simp add: parse_vcf_def bind_def split: if_splits)
  with ids show ?thesis by (simp add: Let_def)
qed

theorem parse_vcf_order_check_witness:
  "vcf_record (tsv [''1'', ''5'', ''a'', ''A'', ''G'', ''.'', ''.'', ''.'', ''GT:X'', ''0/1:9''])
     = Inr (Retained ''1'' 4 ''a'' [''A'', ''G''])
   \<and> vcf_record (tsv [''1'', ''4'', ''c'', ''C'', ''G'', ''.'', ''.'', ''.'', ''GT:X'', ''0/1:9''])
     = Inr (Retained ''1'' 3 ''c'' [''C'', ''G''])
   \<and> parse_vcf [tsv [''1'', ''5'', ''a'', ''A'', ''G'', ''.'', ''.'', ''.'', ''GT:X'', ''0/1:9''],
                tsv [''1'', ''4'', ''c'', ''C'', ''G'', ''.'', ''.'', ''.'', ''GT:X'', ''0/1:9'']]
     = Inl (ValueError ''VCF is not sorted'')"
  using parse_vcf_order_check
    [of "[tsv [''1'', ''5'', ''a'', ''A'', ''G'', ''.'', ''.'', ''.'', ''GT:X'', ''0/1:9''],
          tsv [''1'', ''4'', ''c'', ''C'', ''G'', ''.'', ''.'', ''.'', ''GT:X'', ''0/1:9'']]"]
  by (simp add: vcf_record_a vcf_record_c retained_rows_def number_snps_def snp_lt_def)

text \<open>
  C7 as stated fails: a retained SNP at the chromosome and position of its predecessor
  does not abort the parsing; both SNPs are in the catalog.
\<close>

theorem parse_vcf_equal_position_counterexample:
  "parse_vcf [tsv [''1'', ''5'', ''a'', ''A'', ''G'', ''.'', ''.'', ''.'', ''GT:X'', ''0/1:9''],
              tsv [''1'', ''5'', ''b'', ''C'', ''G'', ''.'', ''.'', ''.'', ''GT:X'', ''0/1:9'']]
   = Inr \<lparr>vcf_snps = [\<lparr>snp_id = 0, chr = ''1'', pos = 4, name = ''a'', alleles = [''A'', ''G'']\<rparr>,
                      \<lparr>snp_id = 1, chr = ''1'', pos = 4, name = ''b'', alleles = [''C'', ''G'']\<rparr>],
          line_to_snp = [(1, 0), (2, 1)], chromosomes = {''1''}\<rparr>"
  by (simp add: parse_vcf_def vcf_step_def vcf_record_a vcf_record_b bind_def snp_lt_def)

subsection \<open>parse\_fragmat\<close>

text \<open>
  C8. The claim is that the two \<^verbatim>\<open>parse_fragmat\<close> functions yield the same tuples, with the
  id of the catalog SNP first. For the fragment line \<^verbatim>\<open>x r1 1 01 II\<close> and the example
  catalog, files.py yields the SNP ids 0 and 1, datagen.py the line indices 1 and 2.
\<close>

theorem parse_fragmat_versions_differ:
  "parse_fragmat [''x r1 1 01 II''] example_vcf True
     = Inr [(''r1'', [(0, 0, CHR ''I''), (1, 1, CHR ''I'')])]
   \<and> parse_fragmat_datagen [''x r1 1 01 II''] example_vcf True
     = Inr [(''r1'', [(1, 0, CHR ''I''), (2, 1, CHR ''I'')])]"
  by code_simp

subsection \<open>parse\_phases\<close>

lemma first_seen_snoc:
  "first_seen (xs @ [x]) = (if x \<in> set xs then first_seen xs else first_seen xs @ [x])"
  by (simp add: first_seen_def)

lemma first_seen_distinct: "distinct (first_seen xs)"
  by (simp add: first_seen_def)

lemma first_seen_set: "set (first_seen xs) = set xs"
  by (simp add: first_seen_def)

lemma map_of_tabulate:
  "map_of (map (\<lambda>k. (k, f k)) ks) key = (if key \<in> set ks then Some (f key) else None)"
  by (induction ks) auto

lemma update_tabulate:
  "distinct ks \<Longrightarrow> AList.update key v (map (\<lambda>k. (k, f k)) ks)
     = (if key \<in> set ks then map (\<lambda>k. (k, if k = key then v else f k)) ks
        else map (\<lambda>k. (k, f k)) ks @ [(key, v)])"
  by (induction ks) auto

lemma read_counter_tabulate:
  "fold count_read rs [] =
     map (\<lambda>k. (k, count_list (map read_key rs) k)) (first_seen (map read_key rs))"
proof (induction rs rule: rev_induct)
  case Nil
  show ?case by (simp add: first_seen_def)
next
  case (snoc r rs)
  let ?keys = "map read_key rs"
  let ?key = "read_key r"
  show ?case
  proof (cases "?key \<in> set ?keys")
    case True
    then have "count_read r (fold count_read rs [])
        = map (\<lambda>k. (k, if k = ?key then count_list ?keys ?key + 1 else count_list ?keys k))
            (first_seen ?keys)"
      by (simp add: snoc.IH count_read_def map_of_tabulate update_tabulate
          first_seen_set first_seen_distinct Let_def)
    with True show ?thesis by (simp add: first_seen_snoc)
  next
    case False
    then have "count_read r (fold count_read rs [])
        = map (\<lambda>k. (k, count_list ?keys k)) (first_seen ?keys) @ [(?key, 1)]"
      by (simp add: snoc.IH count_read_def map_of_tabulate update_tabulate
          first_seen_set first_seen_distinct Let_def)
    with False show ?thesis
      by (auto simp add: first_seen_snoc first_seen_set)
  qed
qed

text \<open>
  C5, amended. The key of the deduplication is the sequence of (SNP, allele) pairs of an
  observation list, in the order of the list and without the qualities. There is one Read
  for each distinct sequence, in the order in which the sequences are first seen; its
  count is the number of observation lists with exactly that sequence, and the ids are
  0, 1, 2 and so on.
\<close>

theorem count_reads_groups_by_sequence:
  "count_reads rs =
     map (\<lambda>(i, key). \<lparr>snps = py_dict key,
                       count = int (count_list (map read_key rs) key),
                       read_id = i\<rparr>)
       (enumerate 0 (first_seen (map read_key rs)))"
  by (simp add: count_reads_def read_counter_tabulate enumerate_eq_zip zip_map2 split_beta)

theorem count_reads_groups_by_sequence_witness:
  "count_reads [[(0, 0, CHR ''I''), (1, 1, CHR ''I'')], [(0, 0, CHR ''J''), (1, 1, CHR ''K'')],
                [(0, 1, CHR ''I''), (1, 0, CHR ''I'')]]
   = [\<lparr>snps = [(0, 0), (1, 1)], count = 2, read_id = 0\<rparr>,
      \<lparr>snps = [(0, 1), (1, 0)], count = 1, read_id = 1\<rparr>]"
  using count_reads_groups_by_sequence [of "[[(0, 0, CHR ''I''), (1, 1, CHR ''I'')],
      [(0, 0, CHR ''J''), (1, 1, CHR ''K'')], [(0, 1, CHR ''I''), (1, 0, CHR ''I'')]]"]
  by (simp add: read_key_def first_seen_def py_dict_def)

text \<open>
  C5 as stated fails: the fragments \<^verbatim>\<open>1 01\<close> and \<^verbatim>\<open>2 1 1 0\<close> hold the same two
  (SNP, allele) pairs in different order, and they become two Reads of count 1.
\<close>

theorem parse_phases_order_sensitive_counterexample:
  "parse_phases example_vcf [[''x r1 1 01 II'', ''x r2 2 1 1 0 II'']] True
   = Inr [\<lparr>snps = [(0, 0), (1, 1)], count = 1, read_id = 0\<rparr>,
          \<lparr>snps = [(1, 1), (0, 0)], count = 1, read_id = 1\<rparr>]"
  by code_simp

subsection \<open>parse\_gtf\<close>

text \<open>
  At a transcript row on a chromosome outside the set the loop makes no progress: whatever
  the fuel, it has not ended.
\<close>

lemma gtf_loop_stuck:
  assumes "i < length b" and "nth_err (b ! i) 2 = Inr ''transcript''"
    and "transcript_fields (b ! i) = Inr (chrom, ival, strand, info_field)"
    and "chrom \<notin> chroms"
  shows "gtf_loop fuel b chroms gi i genes = None"
  using assms by (induction fuel) simp_all

lemma gtf_rows_example:
  "gtf_rows [tsv [''chr2'', ''src'', ''transcript'', ''10'', ''90'', ''.'', ''+'', ''.'',
                  ''transcript_id t1;'']]
   = Inr [[''chr2'', ''src'', ''transcript'', ''10'', ''90'', ''.'', ''+'', ''.'', ''transcript_id t1'']]"
  by code_simp

lemma transcript_fields_example:
  "transcript_fields [''chr2'', ''src'', ''transcript'', ''10'', ''90'', ''.'', ''+'', ''.'', ''transcript_id t1'']
   = Inr (''chr2'', (10, 90), ''+'', ''transcript_id t1'')"
  by code_simp

text \<open>
  C9. The claim is that \<^verbatim>\<open>parse_gtf\<close> ends on every input and passes over the
  transcripts on other chromosomes. For the file with the single transcript row on
  \<open>chr2\<close> and the chromosome set \<open>{chr1}\<close> the loop does not end: line 83 continues the loop
  without advancing \<open>i\<close>.
\<close>

theorem parse_gtf_other_chromosome_loops:
  "\<forall>fuel. parse_gtf fuel
      [tsv [''chr2'', ''src'', ''transcript'', ''10'', ''90'', ''.'', ''+'', ''.'', ''transcript_id t1;'']]
      {''chr1''} = None"
proof
  fix fuel
  have "gtf_loop fuel
      [[''chr2'', ''src'', ''transcript'', ''10'', ''90'', ''.'', ''+'', ''.'', ''transcript_id t1'']]
      {''chr1''} 0 0 [] = None"
    by (rule gtf_loop_stuck [where chrom = "''chr2''"])
      (simp_all add: transcript_fields_example nth_err_def)
  then show "parse_gtf fuel
      [tsv [''chr2'', ''src'', ''transcript'', ''10'', ''90'', ''.'', ''+'', ''.'', ''transcript_id t1;'']]
      {''chr1''} = None"
    by (simp add: parse_gtf_def gtf_rows_example)
qed

text \<open>With the chromosome in the set, the same row is parsed after two iterations.\<close>

lemma parse_gtf_kept_chromosome_example:
  "parse_gtf 2
      [tsv [''chr2'', ''src'', ''transcript'', ''10'', ''90'', ''.'', ''+'', ''.'', ''transcript_id t1;'']]
      {''chr2''}
   = Some (Inr [\<lparr>gene_id = 0, gene_name = ''t1'', gene_chr = ''chr2'', interval = (10, 90),
                  sign = ''+'', exons = []\<rparr>])"
  by code_simp

text \<open>
  When every transcript row is on a chromosome of the set, each iteration advances \<open>i\<close>,
  and the loop ends within as many iterations as there are rows left, plus one.
\<close>

lemma transcript_gene_advances:
  "transcript_gene b gi i chrom ival strand info_field = Inr (gene, i') \<Longrightarrow> i < i'"
  by (auto simp: transcript_gene_def bind_def Let_def split: sum.splits prod.splits)

lemma gtf_loop_enough_fuel:
  assumes kept: "\<And>j chrom ival strand info_field.
      j < length b \<Longrightarrow> transcript_fields (b ! j) = Inr (chrom, ival, strand, info_field)
        \<Longrightarrow> chrom \<in> chroms"
    and fuel: "length b - i < fuel"
  shows "\<exists>r. gtf_loop fuel b chroms gi i genes = Some r"
  using fuel
proof (induction fuel arbitrary: i gi genes)
  case 0
  then show ?case by simp
next
  case (Suc fuel)
  show ?case
  proof (cases "i < length b")
    case False
    then show ?thesis by simp
  next
    case True
    with Suc.prems have next_ok: "length b - i' < fuel" if "i < i'" for i'
      using that by arith
    show ?thesis
    proof (cases "nth_err (b ! i) 2")
      case (Inl e)
      with True show ?thesis by simp
    next
      case (Inr feature)
      show ?thesis
      proof (cases "feature = ''transcript''")
        case False
        from Suc.IH [OF next_ok, of "i + 1"] obtain r
          where "gtf_loop fuel b chroms gi (i + 1) genes = Some r" by auto
        with True Inr False show ?thesis by simp
      next
        case transcript: True
        show ?thesis
        proof (cases "transcript_fields (b ! i)")
          case (Inl e)
          with True Inr transcript show ?thesis by simp
        next
          case fields: (Inr t)
          obtain chrom ival strand info_field where t: "t = (chrom, ival, strand, info_field)"
            by (cases t) auto
          from kept [OF True] fields t have "chrom \<in> chroms" by simp
          show ?thesis
          proof (cases "transcript_gene b gi i chrom ival strand info_field")
            case (Inl e)
            with True Inr transcript fields t \<open>chrom \<in> chroms\<close> show ?thesis by simp
          next
            case gene: (Inr g)
            obtain gene i' where g: "g = (gene, i')" by (cases g)
            from gene g have "i < i'" by (auto dest: transcript_gene_advances)
            from Suc.IH [OF next_ok [OF this], of "gi + 1" "genes @ [gene]"] obtain r
              where "gtf_loop fuel b chroms (gi + 1) i' (genes @ [gene]) = Some r" by auto
            with True Inr transcript fields t \<open>chrom \<in> chroms\<close> gene g show ?thesis by simp
          qed
        qed
      qed
    qed
  qed
qed

subsection \<open>load\_dna\_data\<close>

lemma py_dict_distinct: "distinct (map fst (py_dict kvs))"
proof -
  have "distinct (map fst d) \<Longrightarrow> distinct (map fst (fold (\<lambda>(k, v) d. AList.update k v d) kvs d))"
    for d :: "('a \<times> 'b) list"
    by (induction kvs arbitrary: d) (auto simp: distinct_update)
  then show ?thesis by (simp add: py_dict_def)
qed

lemma count_reads_distinct: "r \<in> set (count_reads rs) \<Longrightarrow> distinct (map fst (snps r))"
  by (auto simp: count_reads_def py_dict_distinct)

lemma set_special_cases:
  "set_special r =
     (if 2 \<le> length (snps r)
      then Inr \<lparr>snps = snps r, count = count r, read_id = read_id r,
                special_snp = sort (map fst (snps r)) ! 1, rates = [1/2, 1/2]\<rparr>
      else Inl IndexError)"
  by (auto simp: set_special_def nth_err_def bind_def)

lemma set_special_loop:
  "fold_err (\<lambda>r acc. bind (set_special r) (\<lambda>r'. Inr (acc @ [r']))) rs acc =
     (if \<forall>r \<in> set rs. 2 \<le> length (snps r)
      then Inr (acc @ map (\<lambda>r. \<lparr>snps = snps r, count = count r, read_id = read_id r,
                special_snp = sort (map fst (snps r)) ! 1, rates = [1/2, 1/2]\<rparr>) rs)
      else Inl IndexError)"
  by (induction rs arbitrary: acc) (auto simp: set_special_cases bind_def)

lemma second_smallest:
  fixes xs :: "int list"
  assumes "distinct xs" and "2 \<le> length xs"
  shows "sort xs ! 1 \<in> set xs \<and> card {k \<in> set xs. k < sort xs ! 1} = 1"
proof -
  from assms obtain a b rest where s: "sort xs = a # b # rest"
    by (metis One_nat_def Suc_1 Suc_le_length_iff length_sort)
  have "sorted (sort xs)" "distinct (sort xs)" using assms by simp_all
  with s have ab: "a < b" and rest: "\<forall>y \<in> set rest. b < y"
    by (auto simp: less_le)
  have set: "set xs = insert a (insert b (set rest))"
    using s by (metis list.simps(15) set_sort)
  with ab rest have "{k \<in> set xs. k < b} = {a}" by auto
  with s set show ?thesis by simp
qed

text \<open>
  With the fragment files parsed, \<^verbatim>\<open>load_dna_data\<close> is a loop over the merged Reads that
  raises at the first Read with fewer than two SNPs.
\<close>

lemma load_dna_data_run:
  assumes parsed: "parse_phases vcf paths True = Inr parsed"
  shows "load_dna_data vcf paths rna_reads =
      (let merged = parsed @ (case rna_reads of None \<Rightarrow> [] | Some extra \<Rightarrow> extra) in
       if \<forall>r \<in> set merged. 2 \<le> length (snps r)
       then Inr (map (\<lambda>r. \<lparr>snps = snps r, count = count r, read_id = read_id r,
                special_snp = sort (map fst (snps r)) ! 1, rates = [1/2, 1/2]\<rparr>) merged, 2)
       else Inl IndexError)"
proof -
  have merged: "(case rna_reads of None \<Rightarrow> parsed
                 | Some rs \<Rightarrow> if rs \<noteq> [] then parsed @ rs else parsed)
         = parsed @ (case rna_reads of None \<Rightarrow> [] | Some extra \<Rightarrow> extra)"
    by (cases rna_reads) auto
  show ?thesis
    unfolding load_dna_data_def parsed
    by (simp add: merged set_special_loop bind_Inr bind_Inl Let_def del: set_append)
qed

lemma load_dna_data_example:
  "load_dna_data example_vcf [[''x r1 1 01 II'', ''x r2 2 1 1 0 II'']]
     (Some [\<lparr>snps = [(7, 0), (3, 1), (5, 1)], count = 1, read_id = 0\<rparr>])
   = Inr ([\<lparr>snps = [(0, 0), (1, 1)], count = 1, read_id = 0, special_snp = 1, rates = [1/2, 1/2]\<rparr>,
           \<lparr>snps = [(1, 1), (0, 0)], count = 1, read_id = 1, special_snp = 1, rates = [1/2, 1/2]\<rparr>,
           \<lparr>snps = [(7, 0), (3, 1), (5, 1)], count = 1, read_id = 0, special_snp = 5,
              rates = [1/2, 1/2]\<rparr>], 2)"
  by code_simp

text \<open>
  C10. When \<^verbatim>\<open>load_dna_data\<close> returns, the Reads handed to the graph are the Reads parsed
  from the fragment files followed by the RNA-derived Reads supplied, if any (each a
  dictionary, so with distinct keys). Every one of them has \<^verbatim>\<open>special_snp\<close> equal to the
  second-smallest SNP id it covers, the item at index 1 of its sorted SNP ids: a SNP of
  the Read with exactly one SNP of the Read below it. Its rates are \<open>[0.5, 0.5]\<close>. Every
  Read of a result covers at least two SNPs.
\<close>

theorem load_dna_data_returned_reads:
  assumes ret: "load_dna_data vcf paths rna_reads = Inr (rs, n)"
    and wf: "\<forall>r \<in> set (case rna_reads of None \<Rightarrow> [] | Some extra \<Rightarrow> extra).
               distinct (map fst (snps r))"
  shows "(\<exists>parsed. parse_phases vcf paths True = Inr parsed
            \<and> map snps rs
                = map snps (parsed @ (case rna_reads of None \<Rightarrow> [] | Some extra \<Rightarrow> extra)))
       \<and> (\<forall>r \<in> set rs. special_snp r = sort (map fst (snps r)) ! 1
              \<and> 2 \<le> length (snps r)
              \<and> special_snp r \<in> fst ` set (snps r)
              \<and> card {k \<in> fst ` set (snps r). k < special_snp r} = 1
              \<and> rates r = [1/2, 1/2])"
proof -
  let ?extra = "case rna_reads of None \<Rightarrow> [] | Some extra \<Rightarrow> extra"
  let ?mk = "\<lambda>r :: Read. \<lparr>snps = snps r, count = count r, read_id = read_id r,
                special_snp = sort (map fst (snps r)) ! 1, rates = [1/2, 1/2]\<rparr>"
  from ret obtain parsed where parsed: "parse_phases vcf paths True = Inr parsed"
    by (cases "parse_phases vcf paths True") (auto simp: load_dna_data_def bind_Inl)
  from load_dna_data_run [OF parsed, of rna_reads] ret
  have two: "\<forall>r \<in> set (parsed @ ?extra). 2 \<le> length (snps r)"
    and rs: "rs = map ?mk (parsed @ ?extra)"
    by (auto simp: Let_def split: if_splits)
  from parsed have "parsed = count_reads (projr (collect_reads parse_fragmat vcf paths True))"
    by (auto simp: parse_phases_def bind_def split: sum.splits)
  then have "\<forall>r \<in> set parsed. distinct (map fst (snps r))"
    using count_reads_distinct by blast
  with wf have dist: "\<forall>r \<in> set (parsed @ ?extra). distinct (map fst (snps r))" by auto
  have each: "special_snp r' = sort (map fst (snps r')) ! 1
        \<and> 2 \<le> length (snps r')
        \<and> special_snp r' \<in> fst ` set (snps r')
        \<and> card {k \<in> fst ` set (snps r'). k < special_snp r'} = 1 \<and> rates r' = [1/2, 1/2]"
    if "r' \<in> set rs" for r'
  proof -
    from that rs obtain r where r: "r \<in> set (parsed @ ?extra)" "r' = ?mk r" by auto
    with two dist have "distinct (map fst (snps r))" "2 \<le> length (map fst (snps r))" by auto
    from second_smallest [OF this] this(2) r(2) show ?thesis by simp
  qed
  have "map snps rs = map snps (parsed @ ?extra)"
    unfolding rs by (simp add: comp_def)
  with parsed each show ?thesis by blast
qed

theorem load_dna_data_returned_reads_witness:
  "load_dna_data example_vcf [[''x r1 1 01 II'', ''x r2 2 1 1 0 II'']]
     (Some [\<lparr>snps = [(7, 0), (3, 1), (5, 1)], count = 1, read_id = 0\<rparr>])
   = Inr ([\<lparr>snps = [(0, 0), (1, 1)], count = 1, read_id = 0, special_snp = 1, rates = [1/2, 1/2]\<rparr>,
           \<lparr>snps = [(1, 1), (0, 0)], count = 1, read_id = 1, special_snp = 1, rates = [1/2, 1/2]\<rparr>,
           \<lparr>snps = [(7, 0), (3, 1), (5, 1)], count = 1, read_id = 0, special_snp = 5,
              rates = [1/2, 1/2]\<rparr>], 2)
   \<and> distinct (map fst [(7, 0), (3, 1), (5 :: int, 1 :: int)])
   \<and> card {k \<in> fst ` set [(7, 0), (3, 1), (5 :: int, 1 :: int)]. k < 5} = 1
   \<and> card {k \<in> fst ` set [(0, 0), (1 :: int, 1 :: int)]. k < 1} = 1"
  using load_dna_data_returned_reads [OF load_dna_data_example]
  by (simp add: load_dna_data_example)

text \<open>
  A Read that covers one SNP is in no result: \<^verbatim>\<open>sorted(r.snps)[1]\<close> raises at it, and
  the call does not return.
\<close>

lemma load_dna_data_single_snp_raises:
  assumes "parse_phases vcf paths True = Inr parsed"
    and "r \<in> set (parsed @ (case rna_reads of None \<Rightarrow> [] | Some extra \<Rightarrow> extra))"
    and "length (snps r) < 2"
  shows "load_dna_data vcf paths rna_reads = Inl IndexError"
proof -
  from assms(2,3)
  have "\<not> (\<forall>r \<in> set (parsed @ (case rna_reads of None \<Rightarrow> [] | Some extra \<Rightarrow> extra)).
             2 \<le> length (snps r))"
    by (meson not_le)
  with load_dna_data_run [OF assms(1), of rna_reads] show ?thesis
    by (simp add: Let_def del: set_append)
qed

lemma load_dna_data_single_snp_example:
  "load_dna_data example_vcf [[''x r1 1 01 II'']] (Some [\<lparr>snps = [(5, 0)], count = 1, read_id = 0\<rparr>])
   = Inl IndexError"
  by code_simp

end
